theory Spec2Isabelle
  imports Main "HOL-Library.AList" "HOL-Library.Char_ord" "HOL-Library.List_Lexorder"
    "HOL-Library.Multiset"
begin

section \<open>Python values\<close>

text \<open>
  The run registry (\<^verbatim>\<open>state/entries.py\<close>) stores whatever \<^verbatim>\<open>json.load\<close> returns, and its
  code is written to tolerate records of any shape. Its values are therefore modelled as
  JSON documents. A Python \<^verbatim>\<open>dict\<close> is an association list in insertion order; a string
  is a list of characters, each standing for one code point below 256. Numbers are
  integers (a JSON number with a fraction is outside the model).
\<close>

datatype json =
    JNull
  | JBool bool
  | JInt int
  | JStr string
  | JList "json list"
  | JObj "(string \<times> json) list"

type_synonym dict = "(string \<times> json) list"

text \<open>Python's truth value of an object (\<^verbatim>\<open>if x\<close>, \<^verbatim>\<open>x or y\<close>, \<^verbatim>\<open>not x\<close>).\<close>

fun truthy :: "json \<Rightarrow> bool" where
  "truthy JNull = False"
| "truthy (JBool b) = b"
| "truthy (JInt i) = (i \<noteq> 0)"
| "truthy (JStr s) = (s \<noteq> [])"
| "truthy (JList xs) = (xs \<noteq> [])"
| "truthy (JObj kvs) = (kvs \<noteq> [])"

text \<open>\<^verbatim>\<open>a or b\<close> returns \<^verbatim>\<open>a\<close> when it is true and \<^verbatim>\<open>b\<close> otherwise.\<close>

definition py_or :: "json \<Rightarrow> json \<Rightarrow> json" where
  "py_or a b = (if truthy a then a else b)"

text \<open>\<^verbatim>\<open>d.get(k)\<close>: the value stored under \<^verbatim>\<open>k\<close>, \<^verbatim>\<open>None\<close> when the key is absent.\<close>

definition dget :: "dict \<Rightarrow> string \<Rightarrow> json" where
  "dget d k = (case map_of d k of None \<Rightarrow> JNull | Some v \<Rightarrow> v)"

text \<open>\<^verbatim>\<open>d.update(u)\<close>: the members of \<^verbatim>\<open>u\<close> are stored into \<^verbatim>\<open>d\<close> one after the other.\<close>

definition dict_update :: "dict \<Rightarrow> dict \<Rightarrow> dict" where
  "dict_update d u = fold (\<lambda>(k, v). AList.update k v) u d"

text \<open>Decimal rendering of an integer, as \<^verbatim>\<open>str\<close> prints it.\<close>

definition digit_char :: "nat \<Rightarrow> char" where
  "digit_char d = char_of (48 + d)"

fun digits :: "nat \<Rightarrow> string" where
  "digits n = (if n < 10 then [digit_char n] else digits (n div 10) @ [digit_char (n mod 10)])"

definition str_int :: "int \<Rightarrow> string" where
  "str_int i = (if i < 0 then CHR ''-'' # digits (nat (- i)) else digits (nat i))"

text \<open>
  \<^verbatim>\<open>str(x)\<close>, which is also what an f-string inserts for \<^verbatim>\<open>{x}\<close>. For a list or a dict
  Python prints its \<^verbatim>\<open>repr\<close>; that function belongs to the interpreter and is taken as
  the parameter \<open>rp\<close>.
\<close>

fun py_str :: "(json \<Rightarrow> string) \<Rightarrow> json \<Rightarrow> string" where
  "py_str rp JNull = ''None''"
| "py_str rp (JBool b) = (if b then ''True'' else ''False'')"
| "py_str rp (JInt i) = str_int i"
| "py_str rp (JStr s) = s"
| "py_str rp (JList xs) = rp (JList xs)"
| "py_str rp (JObj kvs) = rp (JObj kvs)"

text \<open>
  \<^verbatim>\<open>str.lower()\<close> and the white space that \<^verbatim>\<open>str.strip()\<close> removes, on code points
  below 256: the capital letters are A to Z and the Latin-1 capitals 192 to 222 without
  the multiplication sign 215; white space is 9 to 13, 28 to 32, 133 and 160.
\<close>

definition lower_char :: "char \<Rightarrow> char" where
  "lower_char c =
     (let n = of_char c :: nat
      in if (65 \<le> n \<and> n \<le> 90) \<or> (192 \<le> n \<and> n \<le> 222 \<and> n \<noteq> 215) then char_of (n + 32) else c)"

definition lower :: "string \<Rightarrow> string" where
  "lower s = map lower_char s"

definition isspace :: "char \<Rightarrow> bool" where
  "isspace c =
     (let n = of_char c :: nat
      in (9 \<le> n \<and> n \<le> 13) \<or> (28 \<le> n \<and> n \<le> 32) \<or> n = 133 \<or> n = 160)"

definition strip :: "string \<Rightarrow> string" where
  "strip s = rev (dropWhile isspace (rev (dropWhile isspace s)))"

section \<open>Errors and replies of the outside world\<close>

text \<open>
  Every exception the code can raise is a value. A call to the workflow engine raises
  \<open>HTTPError\<close> (from \<^verbatim>\<open>raise_for_status\<close>, for a reply whose status is 400 to 599) or
  any other exception, \<open>RequestFailure\<close> with its message. \<open>HTTPException\<close> is FastAPI's
  (status and detail). The object store raises \<^verbatim>\<open>S3Error\<close>, which the code always
  catches, or something else, which it lets through (\<open>StoreError\<close>).
\<close>

datatype request_error = HTTPError nat | RequestFailure string

datatype error =
    ValueError string
  | AttributeError
  | KeyError
  | TypeError
  | HTTPException nat string
  | RequestError request_error
  | StoreError string

text \<open>A network call either gets a reply with a status code and a body, or fails.\<close>

datatype 'a reply = Response nat 'a | Failure string

datatype presign_reply = Url string | S3_failure | Other_failure string

text \<open>
  The documents of the workflow engine follow its published schema: the members the code
  reads are strings, or absent. \<open>wf_nodes\<close> lists the values of \<^verbatim>\<open>status.nodes\<close> in the
  order of the document, \<open>wf_artifacts\<close> is \<^verbatim>\<open>status.outputs.artifacts\<close>; an artifact is
  represented by the \<^verbatim>\<open>key\<close> of its \<^verbatim>\<open>s3\<close> member (\<open>None\<close> when \<^verbatim>\<open>s3\<close> is missing or
  not a dict, \<open>Some None\<close> when it has no key).
\<close>

record node =
  node_name :: "string option"
  node_displayName :: "string option"
  node_podName :: "string option"
  node_phase :: "string option"
  node_startedAt :: "string option"

record workflow =
  wf_phase :: "string option"
  wf_startedAt :: "string option"
  wf_finishedAt :: "string option"
  wf_progress :: "string option"
  wf_message :: "string option"
  wf_artifacts :: "string option option list"
  wf_nodes :: "node list"

text \<open>The query string of a log request.\<close>

record log_query =
  q_workflow :: string
  q_tailLines :: "string option"
  q_podName :: "string option"
  q_container :: string

text \<open>
  The effects a call issues are recorded in order; what the outside world answers may
  depend on the moment of the call, which is the number of effects issued before it.
  The body of the engine's reply to a workflow query is the parsed document, \<open>None\<close>
  when that document is empty. \<open>response_truthy\<close> is the truth value that the HTTP
  library gives a response object of the given status, and \<open>repr\<close> is Python's.
\<close>

datatype event =
    Write_entries json
  | Get_workflow string
  | Get_log log_query
  | Presign json

record world =
  entries_file :: "json option"
  trace :: "event list"

record env =
  repr :: "json \<Rightarrow> string"
  clock :: "nat \<Rightarrow> string"
  argo_workflow :: "nat \<Rightarrow> string \<Rightarrow> workflow option reply"
  argo_log :: "nat \<Rightarrow> log_query \<Rightarrow> string reply"
  presigned_get_object :: "nat \<Rightarrow> json \<Rightarrow> presign_reply"
  response_truthy :: "nat \<Rightarrow> bool"

section \<open>The run registry: state/entries.py\<close>

definition now :: "env \<Rightarrow> world \<Rightarrow> string" where
  "now e w = clock e (length (trace w))"

text \<open>\<^verbatim>\<open>load_json\<close>: the parsed file, the empty dict when the file does not exist.\<close>

definition load_json :: "world \<Rightarrow> json" where
  "load_json w = (case entries_file w of None \<Rightarrow> JObj [] | Some data \<Rightarrow> data)"

definition save_json :: "json \<Rightarrow> world \<Rightarrow> world" where
  "save_json data w = w\<lparr>entries_file := Some data, trace := trace w @ [Write_entries data]\<rparr>"

text \<open>The body of the loop of \<^verbatim>\<open>_normalize_runs\<close>: the record made of one stored item,
  with its run id.\<close>

definition normalize_record :: "env \<Rightarrow> string \<Rightarrow> json \<Rightarrow> string \<times> dict" where
  "normalize_record e key val =
     (let record = (case val of JObj d \<Rightarrow> d | _ \<Rightarrow> [(''value'', val)]);
          run_id = py_or (py_or (dget record ''run_id'') (dget record ''runID'')) (JStr key);
          rid = py_str (repr e) run_id;
          record = AList.update ''run_id'' (JStr rid) record;
          record = AList.delete ''runID'' record
      in (rid, record))"

text \<open>
  The loop itself; \<open>rid\<close> is the string just stored as \<^verbatim>\<open>record["run_id"]\<close>, under which
  the record is filed.
\<close>

fun normalize_loop :: "env \<Rightarrow> dict \<Rightarrow> (string \<times> dict) list \<Rightarrow> (string \<times> dict) list" where
  "normalize_loop e [] normalized = normalized"
| "normalize_loop e ((key, val) # items) normalized =
     (let (rid, record) = normalize_record e key val
      in normalize_loop e items (AList.update rid record normalized))"

definition normalize_runs :: "env \<Rightarrow> dict \<Rightarrow> (string \<times> dict) list" where
  "normalize_runs e runs = normalize_loop e runs []"

text \<open>
  The state that \<^verbatim>\<open>_load_state\<close> returns is the loaded document together with the
  normalized runs that it stores under \<^verbatim>\<open>"runs"\<close>. \<open>state_json\<close> is that document as
  \<^verbatim>\<open>save_json\<close> writes it. A loaded document that is no dict has no \<^verbatim>\<open>get\<close>.
\<close>

type_synonym state = "dict \<times> (string \<times> dict) list"

definition state_json :: "state \<Rightarrow> json" where
  "state_json st = JObj (AList.update ''runs'' (JObj (map (\<lambda>(k, r). (k, JObj r)) (snd st))) (fst st))"

definition stored_runs :: "dict \<Rightarrow> dict" where
  "stored_runs data = (case dget data ''runs'' of JObj r \<Rightarrow> r | _ \<Rightarrow> [])"

definition load_state :: "env \<Rightarrow> world \<Rightarrow> error + state" where
  "load_state e w =
     (case load_json w of
        JObj data \<Rightarrow> Inr (data, normalize_runs e (stored_runs data))
      | _ \<Rightarrow> Inl AttributeError)"

definition backfill_result_object :: "env \<Rightarrow> dict \<Rightarrow> bool \<times> dict" where
  "backfill_result_object e run =
     (if truthy (dget run ''result_object'') \<or> \<not> truthy (dget run ''parameters'') then (False, run)
      else
        (let input_name = dget run ''input_file_name'';
             workflow = dget run ''workflow''
         in if workflow = JStr ''llm'' \<and> truthy input_name
            then (True, AList.update ''result_object'' (JStr (''output/'' @ py_str (repr e) input_name)) run)
            else if workflow = JStr ''ctgan'' \<and> truthy input_name
            then (True, AList.update ''result_object'' (JStr (''output/'' @ py_str (repr e) input_name)) run)
            else (False, run)))"

text \<open>
  \<^verbatim>\<open>list_runs\<close>: the loop backfills each run in place, inside the state, and remembers
  whether any run changed.
\<close>

fun backfill_all :: "env \<Rightarrow> (string \<times> dict) list \<Rightarrow> bool \<times> (string \<times> dict) list" where
  "backfill_all e [] = (False, [])"
| "backfill_all e ((k, run) # rest) =
     (let (changed, run') = backfill_result_object e run;
          (dirty, rest') = backfill_all e rest
      in (changed \<or> dirty, (k, run') # rest'))"

definition entries_list_runs :: "env \<Rightarrow> world \<Rightarrow> (error + dict list) \<times> world" where
  "entries_list_runs e w =
     (case load_state e w of
        Inl err \<Rightarrow> (Inl err, w)
      | Inr (data, runs) \<Rightarrow>
          (let (dirty, runs') = backfill_all e runs
           in (Inr (map snd runs'), if dirty then save_json (state_json (data, runs')) w else w)))"

definition entries_get_run :: "env \<Rightarrow> world \<Rightarrow> string \<Rightarrow> (error + dict option) \<times> world" where
  "entries_get_run e w run_id =
     (case load_state e w of
        Inl err \<Rightarrow> (Inl err, w)
      | Inr (data, runs) \<Rightarrow>
          (case map_of runs run_id of
             None \<Rightarrow> (Inr None, w)
           | Some run \<Rightarrow>
               if run \<noteq> [] then
                 (let (changed, run') = backfill_result_object e run
                  in (Inr (Some run'),
                      if changed then save_json (state_json (data, AList.update run_id run' runs)) w else w))
               else (Inr (Some run), w)))"

definition create_run_entry :: "env \<Rightarrow> world \<Rightarrow> string \<Rightarrow> dict \<Rightarrow> (error + dict) \<times> world" where
  "create_run_entry e w run_id record =
     (case load_state e w of
        Inl err \<Rightarrow> (Inl err, w)
      | Inr (data, runs) \<Rightarrow>
          if map_of runs run_id \<noteq> None
          then (Inl (ValueError (''Run '' @ run_id @ '' already exists'')), w)
          else
            (let stored = AList.update ''updated_at'' (JStr (now e w))
                            (AList.update ''created_at'' (JStr (now e w))
                              (AList.update ''run_id'' (JStr run_id) record))
             in (Inr stored, save_json (state_json (data, AList.update run_id stored runs)) w)))"

definition update_run_entry :: "env \<Rightarrow> world \<Rightarrow> string \<Rightarrow> dict \<Rightarrow> (error + dict option) \<times> world" where
  "update_run_entry e w run_id updates =
     (case load_state e w of
        Inl err \<Rightarrow> (Inl err, w)
      | Inr (data, runs) \<Rightarrow>
          (case map_of runs run_id of
             None \<Rightarrow> (Inr None, w)
           | Some run \<Rightarrow>
               (let run1 = dict_update run updates;
                    run2 = AList.update ''updated_at'' (JStr (now e w)) run1;
                    run3 = snd (backfill_result_object e run2)
                in (Inr (Some run3), save_json (state_json (data, AList.update run_id run3 runs)) w))))"

section \<open>The workflow engine client: workflows/argo.py\<close>

subsection \<open>Filling the parameters of a template\<close>

text \<open>
  The part of \<^verbatim>\<open>create_run\<close> that writes the caller's parameters into the loaded
  template (the statements from \<^verbatim>\<open>parameters = parameters.copy() ...\<close> to the end of
  the first loop). A template declares input parameters, each with a name and a value;
  whatever else a template or a parameter holds is the record's extension and stays as
  it is.
\<close>

record param =
  param_name :: "string option"
  param_value :: "json option"

record 'p template =
  input_parameters :: "'p param_scheme list"

definition fill_param :: "(json \<Rightarrow> string) \<Rightarrow> dict \<Rightarrow> 'p param_scheme \<Rightarrow> 'p param_scheme" where
  "fill_param rp parameters p =
     (case param_name p of
        None \<Rightarrow> p
      | Some name \<Rightarrow>
          (case map_of parameters name of
             None \<Rightarrow> p
           | Some v \<Rightarrow> if v \<noteq> JNull then p\<lparr>param_value := Some (JStr (py_str rp v))\<rparr> else p))"

definition fill_parameters ::
  "(json \<Rightarrow> string) \<Rightarrow> dict option \<Rightarrow> ('p, 't) template_scheme list \<Rightarrow> ('p, 't) template_scheme list" where
  "fill_parameters rp parameters templates =
     (let parameters = (case parameters of None \<Rightarrow> [] | Some ps \<Rightarrow> if ps \<noteq> [] then ps else [])
      in if parameters \<noteq> []
         then map (\<lambda>t. t\<lparr>input_parameters := map (fill_param rp parameters) (input_parameters t)\<rparr>) templates
         else templates)"

text \<open>The parameter names that some template declares.\<close>

definition declared_names :: "('p, 't) template_scheme list \<Rightarrow> string set" where
  "declared_names templates =
     {name. \<exists>t \<in> set templates. \<exists>p \<in> set (input_parameters t). param_name p = Some name}"

subsection \<open>Workflow documents\<close>

definition is_http_error :: "nat \<Rightarrow> bool" where
  "is_http_error st = (400 \<le> st \<and> st < 600)"

definition get_workflow :: "env \<Rightarrow> world \<Rightarrow> string \<Rightarrow> (request_error + workflow option) \<times> world" where
  "get_workflow e w argo_workflow_name =
     (let w' = w\<lparr>trace := trace w @ [Get_workflow argo_workflow_name]\<rparr>
      in case argo_workflow e (length (trace w)) argo_workflow_name of
           Failure msg \<Rightarrow> (Inl (RequestFailure msg), w')
         | Response st body \<Rightarrow>
             if st = 404 then (Inr None, w')
             else if is_http_error st then (Inl (HTTPError st), w')
             else (Inr body, w'))"

definition opt_json :: "string option \<Rightarrow> json" where
  "opt_json x = (case x of None \<Rightarrow> JNull | Some s \<Rightarrow> JStr s)"

definition get_workflow_status :: "env \<Rightarrow> world \<Rightarrow> string \<Rightarrow> (request_error + dict option) \<times> world" where
  "get_workflow_status e w argo_workflow_name =
     (case get_workflow e w argo_workflow_name of
        (Inl err, w') \<Rightarrow> (Inl err, w')
      | (Inr None, w') \<Rightarrow> (Inr None, w')
      | (Inr (Some doc), w') \<Rightarrow>
          (Inr (Some [(''phase'', opt_json (wf_phase doc)),
                      (''startedAt'', opt_json (wf_startedAt doc)),
                      (''finishedAt'', opt_json (wf_finishedAt doc)),
                      (''progress'', opt_json (wf_progress doc)),
                      (''message'', opt_json (wf_message doc))]), w'))"

definition get_output_artifacts ::
  "env \<Rightarrow> world \<Rightarrow> string \<Rightarrow> (request_error + string option option list) \<times> world" where
  "get_output_artifacts e w argo_workflow_name =
     (case get_workflow e w argo_workflow_name of
        (Inl err, w') \<Rightarrow> (Inl err, w')
      | (Inr None, w') \<Rightarrow> (Inr [], w')
      | (Inr (Some doc), w') \<Rightarrow> (Inr (wf_artifacts doc), w'))"

definition generate_presigned_url :: "env \<Rightarrow> world \<Rightarrow> json \<Rightarrow> presign_reply \<times> world" where
  "generate_presigned_url e w object_name =
     (presigned_get_object e (length (trace w)) object_name, w\<lparr>trace := trace w @ [Presign object_name]\<rparr>)"

subsection \<open>Logs\<close>

text \<open>\<^verbatim>\<open>a or b\<close> on strings that may be absent.\<close>

definition str_or :: "string option \<Rightarrow> string \<Rightarrow> string" where
  "str_or a b = (case a of None \<Rightarrow> b | Some s \<Rightarrow> if s \<noteq> [] then s else b)"

text \<open>
  The first loop of \<^verbatim>\<open>_extract_pod_nodes\<close> collects
  \<^verbatim>\<open>(start_time, display_name, pod_name, phase)\<close> of every node that has a pod name.
  Python's \<^verbatim>\<open>list.sort\<close> is a stable sort, and so is \<open>sort_key\<close>; strings are compared
  code point by code point.
\<close>

fun pod_entries :: "node list \<Rightarrow> (string \<times> string \<times> string \<times> string) list" where
  "pod_entries [] = []"
| "pod_entries (n # ns) =
     (let pod_name = str_or (node_podName n) []
      in if pod_name = [] then pod_entries ns
         else
           (let display_name = str_or (node_displayName n) (str_or (node_name n) pod_name);
                phase = (case node_phase n of None \<Rightarrow> ''Unknown'' | Some ph \<Rightarrow> ph);
                start_time = str_or (node_startedAt n) []
            in (start_time, display_name, pod_name, phase) # pod_entries ns))"

definition extract_pod_nodes :: "workflow \<Rightarrow> (string \<times> string \<times> string) list" where
  "extract_pod_nodes doc = map snd (sort_key fst (pod_entries (wf_nodes doc)))"

text \<open>
  \<^verbatim>\<open>_fetch_logs_from_argo\<close>. \<open>log_params\<close> is the query it builds before its loop.
  \<open>log_response\<close> is what one pass of the \<^verbatim>\<open>try\<close> block gets from a request issued at
  moment \<open>n\<close>: the text of the reply, or the exception of the request or of
  \<^verbatim>\<open>raise_for_status\<close>. The loop over the container names returns the first reply that
  is no error; when every request failed the last error is raised.
\<close>

definition log_params :: "string \<Rightarrow> int option \<Rightarrow> string option \<Rightarrow> log_query" where
  "log_params argo_workflow_name tail_lines pod_name =
     \<lparr>q_workflow = argo_workflow_name,
      q_tailLines = (case tail_lines of None \<Rightarrow> None
                     | Some n \<Rightarrow> if n \<noteq> 0 then Some (str_int n) else None),
      q_podName = (case pod_name of None \<Rightarrow> None
                   | Some p \<Rightarrow> if p \<noteq> [] then Some p else None),
      q_container = []\<rparr>"

definition log_response :: "env \<Rightarrow> nat \<Rightarrow> log_query \<Rightarrow> request_error + string" where
  "log_response e n params =
     (case argo_log e n params of
        Failure msg \<Rightarrow> Inl (RequestFailure msg)
      | Response st text \<Rightarrow> if is_http_error st then Inl (HTTPError st) else Inr text)"

fun fetch_loop ::
  "env \<Rightarrow> world \<Rightarrow> log_query \<Rightarrow> string list \<Rightarrow> request_error option \<Rightarrow> (request_error + string) \<times> world" where
  "fetch_loop e w params [] last_error =
     (case last_error of Some err \<Rightarrow> (Inl err, w) | None \<Rightarrow> (Inr [], w))"
| "fetch_loop e w params (container # rest) last_error =
     (let params = params\<lparr>q_container := container\<rparr>;
          w' = w\<lparr>trace := trace w @ [Get_log params]\<rparr>
      in case log_response e (length (trace w)) params of
           Inl exc \<Rightarrow> fetch_loop e w' params rest (Some exc)
         | Inr text \<Rightarrow> (Inr text, w'))"

definition fetch_logs_from_argo ::
  "env \<Rightarrow> world \<Rightarrow> string \<Rightarrow> int option \<Rightarrow> string option \<Rightarrow> string list option
     \<Rightarrow> (request_error + string) \<times> world" where
  "fetch_logs_from_argo e w argo_workflow_name tail_lines pod_name containers =
     (let params = log_params argo_workflow_name tail_lines pod_name;
          container_list = (case containers of None \<Rightarrow> [''main'']
                            | Some cs \<Rightarrow> if cs \<noteq> [] then cs else [''main''])
      in fetch_loop e w params container_list None)"

text \<open>The two handlers of the loop of \<^verbatim>\<open>get_workflow_logs\<close>.\<close>

definition failure_body :: "env \<Rightarrow> string \<Rightarrow> request_error \<Rightarrow> string" where
  "failure_body e pod_name exc =
     (case exc of
        HTTPError st \<Rightarrow>
          ''Failed to fetch logs for pod '' @ pod_name @ '' (HTTP ''
            @ (if response_truthy e st then str_int (int st) else ''unknown'') @ '').''
      | RequestFailure msg \<Rightarrow> ''Failed to fetch logs for pod '' @ pod_name @ '': '' @ msg)"

text \<open>The \<^verbatim>\<open>try\<close> statement of that loop: the body of one pod's section.\<close>

definition pod_body :: "env \<Rightarrow> world \<Rightarrow> string \<Rightarrow> int option \<Rightarrow> string \<Rightarrow> string \<times> world" where
  "pod_body e w argo_workflow_name tail_lines pod_name =
     (case fetch_logs_from_argo e w argo_workflow_name tail_lines (Some pod_name) None of
        (Inl exc, w1) \<Rightarrow> (failure_body e pod_name exc, w1)
      | (Inr log_text, w1) \<Rightarrow>
          if strip log_text = [] then
            (case fetch_logs_from_argo e w1 argo_workflow_name tail_lines (Some pod_name)
                    (Some [''wait'', ''main'']) of
               (Inl exc, w2) \<Rightarrow> (failure_body e pod_name exc, w2)
             | (Inr log_text, w2) \<Rightarrow>
                 (if strip log_text \<noteq> [] then strip log_text else ''(no log output yet)'', w2))
          else (strip log_text, w1))"

definition newline :: string where
  "newline = [CHR 0x0A]"

definition section_header :: "string \<Rightarrow> string \<Rightarrow> string \<Rightarrow> string" where
  "section_header display_name pod_name phase =
     ''=== '' @ display_name @ '' ['' @ pod_name @ ''] (phase: '' @ phase @ '') ===''"

fun pod_sections ::
  "env \<Rightarrow> world \<Rightarrow> string \<Rightarrow> int option \<Rightarrow> (string \<times> string \<times> string) list \<Rightarrow> string list \<times> world" where
  "pod_sections e w argo_workflow_name tail_lines [] = ([], w)"
| "pod_sections e w argo_workflow_name tail_lines ((display_name, pod_name, phase) # rest) =
     (let (body, w1) = pod_body e w argo_workflow_name tail_lines pod_name;
          (sections, w2) = pod_sections e w1 argo_workflow_name tail_lines rest
      in ((section_header display_name pod_name phase @ newline @ body) # sections, w2))"

fun join :: "string \<Rightarrow> string list \<Rightarrow> string" where
  "join sep [] = []"
| "join sep [x] = x"
| "join sep (x # y # ys) = x @ sep @ join sep (y # ys)"

text \<open>
  The sections of \<^verbatim>\<open>get_workflow_logs\<close> when the workflow has pod nodes: one per pod,
  then the aggregated logs when that last request succeeds with a text that is not blank.
\<close>

definition log_sections ::
  "env \<Rightarrow> world \<Rightarrow> string \<Rightarrow> int option \<Rightarrow> (string \<times> string \<times> string) list \<Rightarrow> string list \<times> world" where
  "log_sections e w argo_workflow_name tail_lines pod_nodes =
     (let (sections, w1) = pod_sections e w argo_workflow_name tail_lines pod_nodes
      in case fetch_logs_from_argo e w1 argo_workflow_name tail_lines None None of
           (Inl exc, w2) \<Rightarrow> (sections, w2)
         | (Inr aggregated, w2) \<Rightarrow>
             (if strip aggregated \<noteq> []
              then sections @ [''=== Aggregated workflow logs ==='' @ newline @ strip aggregated]
              else sections, w2))"

definition get_workflow_logs :: "env \<Rightarrow> world \<Rightarrow> string \<Rightarrow> int option \<Rightarrow> (error + string) \<times> world" where
  "get_workflow_logs e w argo_workflow_name tail_lines =
     (case get_workflow e w argo_workflow_name of
        (Inl err, w1) \<Rightarrow> (Inl (RequestError err), w1)
      | (Inr None, w1) \<Rightarrow> (Inl (ValueError (''Workflow '' @ argo_workflow_name @ '' not found'')), w1)
      | (Inr (Some doc), w1) \<Rightarrow>
          (let pod_nodes = extract_pod_nodes doc
           in if pod_nodes = [] then
                (case fetch_logs_from_argo e w1 argo_workflow_name tail_lines None None of
                   (Inl err, w2) \<Rightarrow> (Inl (RequestError err), w2)
                 | (Inr text, w2) \<Rightarrow> (Inr text, w2))
              else
                (let (sections, w2) = log_sections e w1 argo_workflow_name tail_lines pod_nodes
                 in (Inr (join (newline @ newline) sections), w2))))"

section \<open>The operations of the service: main.py\<close>

definition terminal_phases :: "string list" where
  "terminal_phases = [''succeeded'', ''failed'', ''error'', ''skipped'']"

text \<open>
  \<^verbatim>\<open>(d.get("phase") or "").lower()\<close>: a value that is true and no string has no
  \<^verbatim>\<open>lower\<close>.
\<close>

definition phase_lower :: "dict \<Rightarrow> error + string" where
  "phase_lower d =
     (case py_or (dget d ''phase'') (JStr []) of JStr s \<Rightarrow> Inr (lower s) | _ \<Rightarrow> Inl AttributeError)"

text \<open>\<^verbatim>\<open>(run.get("status", {}).get("phase") or "").lower()\<close>\<close>

definition current_phase :: "dict \<Rightarrow> error + string" where
  "current_phase run =
     (case map_of run ''status'' of
        None \<Rightarrow> phase_lower []
      | Some (JObj status) \<Rightarrow> phase_lower status
      | Some _ \<Rightarrow> Inl AttributeError)"

text \<open>
  \<^verbatim>\<open>entries.update_run_entry(run["run_id"], {"status": status}) or run\<close>. The registry's
  keys are strings: another value that can be hashed is not found there, a list or a
  dict cannot be looked up at all.
\<close>

definition update_status :: "env \<Rightarrow> world \<Rightarrow> dict \<Rightarrow> dict \<Rightarrow> (error + dict) \<times> world" where
  "update_status e w run status =
     (case map_of run ''run_id'' of
        None \<Rightarrow> (Inl KeyError, w)
      | Some (JStr run_id) \<Rightarrow>
          (case update_run_entry e w run_id [(''status'', JObj status)] of
             (Inl err, w') \<Rightarrow> (Inl err, w')
           | (Inr None, w') \<Rightarrow> (Inr run, w')
           | (Inr (Some updated), w') \<Rightarrow> (Inr (if updated \<noteq> [] then updated else run), w'))
      | Some (JList _) \<Rightarrow> (Inl TypeError, w)
      | Some (JObj _) \<Rightarrow> (Inl TypeError, w)
      | Some _ \<Rightarrow>
          (case load_state e w of Inl err \<Rightarrow> (Inl err, w) | Inr _ \<Rightarrow> (Inr run, w)))"

text \<open>The body of the loop of \<^verbatim>\<open>list_runs\<close>: the record appended for one run.\<close>

definition refresh_run :: "env \<Rightarrow> world \<Rightarrow> dict \<Rightarrow> (error + dict) \<times> world" where
  "refresh_run e w run =
     (let argo_name = dget run ''argo_name''
      in if \<not> truthy argo_name then (Inr run, w)
         else
           (case current_phase run of
              Inl err \<Rightarrow> (Inl err, w)
            | Inr current \<Rightarrow>
                if current \<in> set terminal_phases then (Inr run, w)
                else
                  (case get_workflow_status e w (py_str (repr e) argo_name) of
                     (Inl exc, w1) \<Rightarrow> (Inr run, w1)
                   | (Inr None, w1) \<Rightarrow> (Inr run, w1)
                   | (Inr (Some status), w1) \<Rightarrow>
                       if status = [] then (Inr run, w1) else update_status e w1 run status)))"

fun refresh_loop :: "env \<Rightarrow> world \<Rightarrow> dict list \<Rightarrow> (error + dict list) \<times> world" where
  "refresh_loop e w [] = (Inr [], w)"
| "refresh_loop e w (run # runs) =
     (case refresh_run e w run of
        (Inl err, w1) \<Rightarrow> (Inl err, w1)
      | (Inr r, w1) \<Rightarrow>
          (case refresh_loop e w1 runs of
             (Inl err, w2) \<Rightarrow> (Inl err, w2)
           | (Inr refreshed, w2) \<Rightarrow> (Inr (r # refreshed), w2)))"

definition list_runs :: "env \<Rightarrow> world \<Rightarrow> bool \<Rightarrow> (error + dict list) \<times> world" where
  "list_runs e w refresh =
     (case entries_list_runs e w of
        (Inl err, w1) \<Rightarrow> (Inl err, w1)
      | (Inr runs, w1) \<Rightarrow> if \<not> refresh then (Inr runs, w1) else refresh_loop e w1 runs)"

definition get_run :: "env \<Rightarrow> world \<Rightarrow> string \<Rightarrow> bool \<Rightarrow> (error + dict) \<times> world" where
  "get_run e w run_id refresh =
     (case entries_get_run e w run_id of
        (Inl err, w1) \<Rightarrow> (Inl err, w1)
      | (Inr None, w1) \<Rightarrow> (Inl (HTTPException 404 ''Run not found''), w1)
      | (Inr (Some run), w1) \<Rightarrow>
          if run = [] then (Inl (HTTPException 404 ''Run not found''), w1)
          else if \<not> refresh then (Inr run, w1)
          else
            (let argo_name = dget run ''argo_name''
             in if \<not> truthy argo_name then (Inr run, w1)
                else
                  (case get_workflow_status e w1 (py_str (repr e) argo_name) of
                     (Inl exc, w2) \<Rightarrow> (Inr run, w2)
                   | (Inr None, w2) \<Rightarrow> (Inr run, w2)
                   | (Inr (Some status), w2) \<Rightarrow>
                       if status = [] then (Inr run, w2)
                       else
                         (case update_run_entry e w2 run_id [(''status'', JObj status)] of
                            (Inl err, w3) \<Rightarrow> (Inl err, w3)
                          | (Inr None, w3) \<Rightarrow> (Inr run, w3)
                          | (Inr (Some updated), w3) \<Rightarrow>
                              (Inr (if updated \<noteq> [] then updated else run), w3)))))"

fun extract_result_key_from_artifacts :: "string option option list \<Rightarrow> string option" where
  "extract_result_key_from_artifacts [] = None"
| "extract_result_key_from_artifacts (artifact # rest) =
     (case artifact of
        Some (Some key) \<Rightarrow> if key \<noteq> [] then Some key else extract_result_key_from_artifacts rest
      | _ \<Rightarrow> extract_result_key_from_artifacts rest)"

text \<open>
  \<^verbatim>\<open>get_run_result\<close> in three parts. First the status check: the engine is asked for
  the status, the registry is updated, and the request is refused when the reported
  phase is not one of the three accepted ones; any other exception in this part is
  dropped.
\<close>

definition complete_phases :: "string list" where
  "complete_phases = [''succeeded'', ''skipped'', ''completed'']"

definition not_complete :: error where
  "not_complete = HTTPException 409 ''Run is not complete yet''"

definition status_check :: "env \<Rightarrow> world \<Rightarrow> string \<Rightarrow> json \<Rightarrow> error option \<times> world" where
  "status_check e w run_id argo_name =
     (if truthy argo_name then
        (case get_workflow_status e w (py_str (repr e) argo_name) of
           (Inl exc, w1) \<Rightarrow> (None, w1)
         | (Inr None, w1) \<Rightarrow> (None, w1)
         | (Inr (Some status), w1) \<Rightarrow>
             if status = [] then (None, w1)
             else
               (case update_run_entry e w1 run_id [(''status'', JObj status)] of
                  (Inl exc, w2) \<Rightarrow> (None, w2)
                | (Inr _, w2) \<Rightarrow>
                    (case phase_lower status of
                       Inl exc \<Rightarrow> (None, w2)
                     | Inr phase \<Rightarrow>
                         if phase \<noteq> [] \<and> phase \<notin> set complete_phases then (Some not_complete, w2)
                         else (None, w2))))
      else (None, w))"

text \<open>Then the result key: the recorded one, or the first key of the output artifacts.\<close>

definition resolve_object_name :: "env \<Rightarrow> world \<Rightarrow> string \<Rightarrow> dict \<Rightarrow> json \<Rightarrow> (error + json) \<times> world" where
  "resolve_object_name e w run_id run argo_name =
     (let object_name = dget run ''result_object''
      in if \<not> truthy object_name \<and> truthy argo_name then
           (case get_output_artifacts e w (py_str (repr e) argo_name) of
              (Inl err, w1) \<Rightarrow> (Inl (RequestError err), w1)
            | (Inr artifacts, w1) \<Rightarrow>
                (case extract_result_key_from_artifacts artifacts of
                   None \<Rightarrow> (Inr JNull, w1)
                 | Some key \<Rightarrow>
                     (case update_run_entry e w1 run_id [(''result_object'', JStr key)] of
                        (Inl err, w2) \<Rightarrow> (Inl err, w2)
                      | (Inr _, w2) \<Rightarrow> (Inr (JStr key), w2))))
         else (Inr object_name, w))"

text \<open>Last the presigned URL, with the fallback when the object store refuses the key.\<close>

definition result_unavailable :: error where
  "result_unavailable = HTTPException 404 ''Result not available''"

definition download :: "string \<Rightarrow> string \<Rightarrow> dict" where
  "download run_id url = [(''run_id'', JStr run_id), (''download_url'', JStr url)]"

definition presign_result :: "env \<Rightarrow> world \<Rightarrow> string \<Rightarrow> json \<Rightarrow> json \<Rightarrow> (error + dict) \<times> world" where
  "presign_result e w run_id argo_name object_name =
     (case generate_presigned_url e w object_name of
        (Url url, w1) \<Rightarrow> (Inr (download run_id url), w1)
      | (Other_failure msg, w1) \<Rightarrow> (Inl (StoreError msg), w1)
      | (S3_failure, w1) \<Rightarrow>
          if truthy argo_name then
            (case get_output_artifacts e w1 (py_str (repr e) argo_name) of
               (Inl err, w2) \<Rightarrow> (Inl (RequestError err), w2)
             | (Inr artifacts, w2) \<Rightarrow>
                 (case extract_result_key_from_artifacts artifacts of
                    None \<Rightarrow> (Inl result_unavailable, w2)
                  | Some fallback_key \<Rightarrow>
                      if JStr fallback_key \<noteq> object_name then
                        (case update_run_entry e w2 run_id [(''result_object'', JStr fallback_key)] of
                           (Inl err, w3) \<Rightarrow> (Inl err, w3)
                         | (Inr _, w3) \<Rightarrow>
                             (case generate_presigned_url e w3 (JStr fallback_key) of
                                (Url url, w4) \<Rightarrow> (Inr (download run_id url), w4)
                              | (Other_failure msg, w4) \<Rightarrow> (Inl (StoreError msg), w4)
                              | (S3_failure, w4) \<Rightarrow> (Inl result_unavailable, w4)))
                      else (Inl result_unavailable, w2)))
          else (Inl result_unavailable, w1))"

definition get_run_result :: "env \<Rightarrow> world \<Rightarrow> string \<Rightarrow> (error + dict) \<times> world" where
  "get_run_result e w run_id =
     (case entries_get_run e w run_id of
        (Inl err, w1) \<Rightarrow> (Inl err, w1)
      | (Inr None, w1) \<Rightarrow> (Inl (HTTPException 404 ''Run not found''), w1)
      | (Inr (Some run), w1) \<Rightarrow>
          if run = [] then (Inl (HTTPException 404 ''Run not found''), w1)
          else
            (let argo_name = dget run ''argo_name''
             in case status_check e w1 run_id argo_name of
                  (Some err, w2) \<Rightarrow> (Inl err, w2)
                | (None, w2) \<Rightarrow>
                    (case resolve_object_name e w2 run_id run argo_name of
                       (Inl err, w3) \<Rightarrow> (Inl err, w3)
                     | (Inr object_name, w3) \<Rightarrow>
                         if \<not> truthy object_name
                         then (Inl (HTTPException 404 ''Result location unknown''), w3)
                         else presign_result e w3 run_id argo_name object_name)))"

section \<open>Concrete registries and environments\<close>

text \<open>
  The inputs at which the theorems below are instantiated. In \<open>env0\<close> the engine cannot
  be reached and the object store refuses every key; the other environments change one
  answer of it. A response object counts as true when its status is below 400, which is
  how the HTTP library of the service defines it.
\<close>

definition env0 :: env where
  "env0 = \<lparr>repr = (\<lambda>v. ''<repr>''),
            clock = (\<lambda>n. ''T'' @ digits n),
            argo_workflow = (\<lambda>n name. Failure ''connection refused''),
            argo_log = (\<lambda>n q. Failure ''connection refused''),
            presigned_get_object = (\<lambda>n key. S3_failure),
            response_truthy = (\<lambda>st. st < 400)\<rparr>"

text \<open>A file written by an older version: a bare value, and a record with the old id field.\<close>

definition legacy_data :: dict where
  "legacy_data =
     [(''version'', JInt 1),
      (''runs'', JObj [(''a'', JInt 5),
                       (''b'', JObj [(''runID'', JStr ''legacy''), (''workflow'', JStr ''llm'')])])]"

definition legacy_world :: world where
  "legacy_world = \<lparr>entries_file = Some (JObj legacy_data), trace = []\<rparr>"

definition legacy_runs :: "(string \<times> dict) list" where
  "legacy_runs =
     [(''a'', [(''value'', JInt 5), (''run_id'', JStr ''a'')]),
      (''legacy'', [(''workflow'', JStr ''llm''), (''run_id'', JStr ''legacy'')])]"

text \<open>
  A registry with one run of the \<^verbatim>\<open>llm\<close> workflow that has no \<^verbatim>\<open>result_object\<close>:
  \<open>bare_run\<close> has no parameters either, \<open>llm_run\<close> has them.
\<close>

definition bare_run :: dict where
  "bare_run = [(''run_id'', JStr ''r1''), (''workflow'', JStr ''llm''), (''input_file_name'', JStr ''x.csv'')]"

definition bare_world :: world where
  "bare_world = \<lparr>entries_file = Some (JObj [(''runs'', JObj [(''r1'', JObj bare_run)])]), trace = []\<rparr>"

definition llm_run :: dict where
  "llm_run = [(''run_id'', JStr ''r1''), (''workflow'', JStr ''llm''),
              (''parameters'', JObj [(''model'', JStr ''m'')]), (''input_file_name'', JStr ''x.csv'')]"

definition llm_world :: world where
  "llm_world = \<lparr>entries_file = Some (JObj [(''runs'', JObj [(''r1'', JObj llm_run)])]), trace = []\<rparr>"

text \<open>A template with two declared parameters, each with a default value.\<close>

definition ctgan_template :: "(unit, unit) template_scheme" where
  "ctgan_template =
     \<lparr>input_parameters =
        [\<lparr>param_name = Some ''discrete_columns'', param_value = Some (JStr ''a,b'')\<rparr>,
         \<lparr>param_name = Some ''no_of_epochs'', param_value = Some (JInt 300)\<rparr>]\<rparr>"

text \<open>
  Three pods listed in the order second, first, third of their start times, and a node
  without a pod between them.
\<close>

definition node_t1 :: node where
  "node_t1 = \<lparr>node_name = Some ''wf.load'', node_displayName = Some ''load'', node_podName = Some ''pod-1'',
               node_phase = Some ''Succeeded'', node_startedAt = Some ''10:00:00''\<rparr>"

definition node_t2 :: node where
  "node_t2 = \<lparr>node_name = Some ''wf.train'', node_displayName = None, node_podName = Some ''pod-2'',
               node_phase = Some ''Running'', node_startedAt = Some ''10:05:00''\<rparr>"

definition node_t3 :: node where
  "node_t3 = \<lparr>node_name = None, node_displayName = None, node_podName = Some ''pod-3'',
               node_phase = None, node_startedAt = Some ''10:09:30''\<rparr>"

definition node_dag :: node where
  "node_dag = \<lparr>node_name = Some ''wf'', node_displayName = Some ''wf'', node_podName = None,
                node_phase = Some ''Running'', node_startedAt = Some ''09:59:00''\<rparr>"

definition doc_of :: "node list \<Rightarrow> workflow" where
  "doc_of ns = \<lparr>wf_phase = Some ''Running'', wf_startedAt = None, wf_finishedAt = None,
                 wf_progress = None, wf_message = None, wf_artifacts = [], wf_nodes = ns\<rparr>"

text \<open>
  Notions for the statements about logs: the query for one container of a pod, and a
  world after some more effects.
\<close>

definition pod_query :: "string \<Rightarrow> int option \<Rightarrow> string \<Rightarrow> string \<Rightarrow> log_query" where
  "pod_query argo_workflow_name tail_lines pod_name container =
     (log_params argo_workflow_name tail_lines (Some pod_name))\<lparr>q_container := container\<rparr>"

definition issue :: "world \<Rightarrow> event list \<Rightarrow> world" where
  "issue w events = w\<lparr>trace := trace w @ events\<rparr>"

text \<open>
  An engine whose \<^verbatim>\<open>wait\<close> container has printed nothing yet, and whose \<^verbatim>\<open>main\<close>
  container answers with a blank text to the first request and with \<^verbatim>\<open>hello\<close> later.
\<close>

definition env_quiet_wait :: env where
  "env_quiet_wait =
     env0\<lparr>argo_log := (\<lambda>n q. if q_container q = ''wait'' then Response 200 []
                             else if n = 0 then Response 200 '' '' else Response 200 ''hello'')\<rparr>"

definition world0 :: world where
  "world0 = \<lparr>entries_file = None, trace = []\<rparr>"

text \<open>
  An engine with the three pods of above: the log of \<^verbatim>\<open>pod-2\<close> cannot be fetched
  (HTTP 500), the other two pods have logs.
\<close>

definition env_pod2_down :: env where
  "env_pod2_down =
     env0\<lparr>argo_workflow := (\<lambda>n name. Response 200 (Some (doc_of [node_t2, node_dag, node_t1, node_t3]))),
          argo_log := (\<lambda>n q. if q_podName q = Some ''pod-2'' then Response 500 []
                               else if q_podName q = Some ''pod-1'' then Response 200 ''loading''
                               else Response 200 ''done'')\<rparr>"

text \<open>
  A registry with one finished run, and an engine that reports the workflow of that run
  as succeeded.
\<close>

definition done_run :: dict where
  "done_run =
     [(''workflow'', JStr ''llm''),
      (''parameters'', JObj [(''model'', JStr ''m'')]),
      (''argo_name'', JStr ''wf-1''),
      (''status'', JObj [(''phase'', JStr ''Succeeded'')]),
      (''result_object'', JStr ''output/x.csv''),
      (''run_id'', JStr ''r1'')]"

definition done_world :: world where
  "done_world = \<lparr>entries_file = Some (JObj [(''runs'', JObj [(''r1'', JObj done_run)])]), trace = []\<rparr>"

definition doc_succeeded :: workflow where
  "doc_succeeded =
     \<lparr>wf_phase = Some ''Succeeded'', wf_startedAt = Some ''10:00:00'', wf_finishedAt = Some ''10:30:00'',
      wf_progress = Some ''1/1'', wf_message = None, wf_artifacts = [], wf_nodes = []\<rparr>"

definition env_succeeded :: env where
  "env_succeeded = env0\<lparr>argo_workflow := (\<lambda>n name. Response 200 (Some doc_succeeded))\<rparr>"

definition refreshed_run :: dict where
  "refreshed_run =
     [(''workflow'', JStr ''llm''),
      (''parameters'', JObj [(''model'', JStr ''m'')]),
      (''argo_name'', JStr ''wf-1''),
      (''status'', JObj [(''phase'', JStr ''Succeeded''), (''startedAt'', JStr ''10:00:00''),
                         (''finishedAt'', JStr ''10:30:00''), (''progress'', JStr ''1/1''),
                         (''message'', JNull)]),
      (''result_object'', JStr ''output/x.csv''),
      (''run_id'', JStr ''r1''),
      (''updated_at'', JStr ''T1'')]"

text \<open>
  A registry whose run \<^verbatim>\<open>r1\<close> records a result key that the object store refuses. In
  \<open>env_moved\<close> the workflow's output artifacts name another key, which the store
  accepts; in \<open>env_same\<close> they name the recorded key again.
\<close>

definition stale_run :: dict where
  "stale_run =
     [(''workflow'', JStr ''llm''),
      (''parameters'', JObj [(''model'', JStr ''m'')]),
      (''argo_name'', JStr ''wf-1''),
      (''status'', JObj [(''phase'', JStr ''Succeeded'')]),
      (''result_object'', JStr ''output/old.csv''),
      (''run_id'', JStr ''r1'')]"

definition stale_world :: world where
  "stale_world = \<lparr>entries_file = Some (JObj [(''runs'', JObj [(''r1'', JObj stale_run)])]), trace = []\<rparr>"

definition env_moved :: env where
  "env_moved =
     env0\<lparr>argo_workflow := (\<lambda>n name. Response 200
              (Some (doc_succeeded\<lparr>wf_artifacts := [None, Some None, Some (Some ''output/new.csv'')]\<rparr>))),
          presigned_get_object := (\<lambda>n key. if key = JStr ''output/new.csv''
                                          then Url ''http://127.0.0.1:9000/inputs/output/new.csv''
                                          else S3_failure)\<rparr>"

definition env_same :: env where
  "env_same =
     env0\<lparr>argo_workflow := (\<lambda>n name. Response 200
              (Some (doc_succeeded\<lparr>wf_artifacts := [Some (Some ''output/old.csv'')]\<rparr>)))\<rparr>"

text \<open>
  A registry whose run \<^verbatim>\<open>r1\<close> has failed, and an engine that reports its workflow as
  failed.
\<close>

definition failed_run :: dict where
  "failed_run =
     [(''workflow'', JStr ''llm''),
      (''parameters'', JObj [(''model'', JStr ''m'')]),
      (''argo_name'', JStr ''wf-1''),
      (''status'', JObj [(''phase'', JStr ''Failed'')]),
      (''result_object'', JStr ''output/x.csv''),
      (''run_id'', JStr ''r1'')]"

definition failed_world :: world where
  "failed_world = \<lparr>entries_file = Some (JObj [(''runs'', JObj [(''r1'', JObj failed_run)])]), trace = []\<rparr>"

definition env_failed :: env where
  "env_failed = env0\<lparr>argo_workflow := (\<lambda>n name. Response 200 (Some (doc_succeeded\<lparr>wf_phase := Some ''Failed''\<rparr>)))\<rparr>"

text \<open>
  A fourth pod that has not started, so that it has no start time, and an engine that
  serves a document with the four pods and a log for each of them. \<open>env_four_shuffled\<close>
  serves the same nodes in another order.
\<close>

definition node_t0 :: node where
  "node_t0 = \<lparr>node_name = Some ''wf.queue'', node_displayName = Some ''queue'', node_podName = Some ''pod-0'',
               node_phase = Some ''Pending'', node_startedAt = None\<rparr>"

definition four_logs :: "nat \<Rightarrow> log_query \<Rightarrow> string reply" where
  "four_logs n q =
     (if q_podName q = Some ''pod-0'' then Response 200 ''queued''
      else if q_podName q = Some ''pod-1'' then Response 200 ''loading''
      else if q_podName q = Some ''pod-2'' then Response 200 ''epoch 1''
      else if q_podName q = Some ''pod-3'' then Response 200 ''done''
      else Failure ''timed out'')"

definition env_four :: env where
  "env_four =
     env0\<lparr>argo_workflow := (\<lambda>n name. Response 200 (Some (doc_of [node_t2, node_dag, node_t0, node_t1, node_t3]))),
          argo_log := four_logs\<rparr>"

definition env_four_shuffled :: env where
  "env_four_shuffled =
     env0\<lparr>argo_workflow := (\<lambda>n name. Response 200 (Some (doc_of [node_t3, node_t1, node_t0, node_dag, node_t2]))),
          argo_log := four_logs\<rparr>"

section \<open>Facts about association lists\<close>

lemma in_set_update:
  "(k', v') \<in> set (AList.update k v al) \<Longrightarrow> (k', v') = (k, v) \<or> (k', v') \<in> set al"
  by (induction al) (auto split: if_splits)

lemma not_in_delete: "(k, v) \<notin> set (AList.delete k al)"
  by (simp add: AList.delete_eq)

lemma update_fresh: "k \<notin> fst ` set al \<Longrightarrow> AList.update k v al = al @ [(k, v)]"
  by (induction al) auto

lemma dget_update: "dget (AList.update k v d) k' = (if k' = k then v else dget d k')"
  by (simp add: dget_def AList.update_conv')

section \<open>The registry after a load\<close>

text \<open>
  \<open>run_ok k r\<close>: the record \<open>r\<close> carries the id \<open>k\<close> under \<^verbatim>\<open>"run_id"\<close> and has no
  \<^verbatim>\<open>"runID"\<close> member. The loop of \<^verbatim>\<open>_normalize_runs\<close> keeps this for every record it has
  filed, also when a later item takes the place of an earlier one.
\<close>

lemma normalize_record_ok:
  "normalize_record e key val = (rid, r) \<Longrightarrow>
     map_of r ''run_id'' = Some (JStr rid) \<and> ''runID'' \<notin> fst ` set r"
  unfolding normalize_record_def Let_def
  by (auto simp: not_in_delete AList.delete_conv' AList.update_conv')

lemma normalize_loop_ok:
  "\<forall>(k, r) \<in> set acc. map_of r ''run_id'' = Some (JStr k) \<and> ''runID'' \<notin> fst ` set r \<Longrightarrow>
   distinct (map fst acc) \<Longrightarrow>
   (\<forall>(k, r) \<in> set (normalize_loop e items acc).
       map_of r ''run_id'' = Some (JStr k) \<and> ''runID'' \<notin> fst ` set r) \<and>
   distinct (map fst (normalize_loop e items acc))"
proof (induction items arbitrary: acc)
  case Nil
  then show ?case by simp
next
  case (Cons kv items)
  obtain key val where kv: "kv = (key, val)" by (cases kv)
  obtain rid r where nr: "normalize_record e key val = (rid, r)"
    by (cases "normalize_record e key val")
  have ok: "map_of r ''run_id'' = Some (JStr rid) \<and> ''runID'' \<notin> fst ` set r"
    using nr by (rule normalize_record_ok)
  have a: "\<forall>(k, r) \<in> set (AList.update rid r acc).
             map_of r ''run_id'' = Some (JStr k) \<and> ''runID'' \<notin> fst ` set r"
    using Cons.prems(1) ok by (auto dest: in_set_update)
  have b: "distinct (map fst (AList.update rid r acc))"
    using Cons.prems(2) by (simp add: AList.distinct_update)
  show ?case using Cons.IH[OF a b] by (simp add: kv nr)
qed

lemma normalize_runs_ok:
  "(\<forall>(k, r) \<in> set (normalize_runs e runs).
       map_of r ''run_id'' = Some (JStr k) \<and> ''runID'' \<notin> fst ` set r) \<and>
   distinct (map fst (normalize_runs e runs))"
  unfolding normalize_runs_def by (rule normalize_loop_ok) simp_all

lemma normalize_loop_origin:
  "(k, r) \<in> set (normalize_loop e items acc) \<Longrightarrow>
   (k, r) \<in> set acc \<or> (\<exists>key val. (key, val) \<in> set items \<and> normalize_record e key val = (k, r))"
proof (induction items arbitrary: acc)
  case Nil
  then show ?case by simp
next
  case (Cons kv items)
  obtain key val where kv: "kv = (key, val)" by (cases kv)
  obtain rid r' where nr: "normalize_record e key val = (rid, r')"
    by (cases "normalize_record e key val")
  from Cons.prems have "(k, r) \<in> set (normalize_loop e items (AList.update rid r' acc))"
    by (simp add: kv nr)
  from Cons.IH[OF this] show ?case
    using kv nr by (auto dest: in_set_update)
qed

lemma normalize_runs_origin:
  "(k, r) \<in> set (normalize_runs e runs) \<Longrightarrow>
   \<exists>key val. (key, val) \<in> set runs \<and> normalize_record e key val = (k, r)"
  unfolding normalize_runs_def by (drule normalize_loop_origin) simp

lemma load_state_runs:
  "load_state e w = Inr (data, runs) \<Longrightarrow>
     load_json w = JObj data \<and> runs = normalize_runs e (stored_runs data)"
  by (auto simp: load_state_def split: json.splits)

text \<open>
  Claim C10. After \<^verbatim>\<open>_load_state\<close>, every run of the state is a dict filed under the
  string that is its own \<^verbatim>\<open>"run_id"\<close> member, and it has no \<^verbatim>\<open>"runID"\<close> member. It is
  made of one stored item: a stored value that is no dict is wrapped as
  \<^verbatim>\<open>{"value": ...}\<close>; the id is the item's \<^verbatim>\<open>run_id\<close> if it has one, else its legacy
  \<^verbatim>\<open>runID\<close>, else the key it was stored under, as a string; \<^verbatim>\<open>runID\<close> is removed.
  Every operation of the registry starts with \<^verbatim>\<open>_load_state\<close> and reads this state.
\<close>

theorem load_state_normalized:
  assumes "load_state e w = Inr (data, runs)" and "(k, r) \<in> set runs"
  shows "dget r ''run_id'' = JStr k \<and> map_of r ''runID'' = None \<and>
         (\<exists>key val. (key, val) \<in> set (stored_runs data) \<and>
            (let d = (case val of JObj d \<Rightarrow> d | _ \<Rightarrow> [(''value'', val)])
             in k = (if truthy (dget d ''run_id'') then py_str (repr e) (dget d ''run_id'')
                     else if truthy (dget d ''runID'') then py_str (repr e) (dget d ''runID'')
                     else key) \<and>
                r = AList.delete ''runID'' (AList.update ''run_id'' (JStr k) d)))"
proof -
  have runs: "runs = normalize_runs e (stored_runs data)"
    using assms(1) by (simp add: load_state_runs)
  have "map_of r ''run_id'' = Some (JStr k) \<and> ''runID'' \<notin> fst ` set r"
    using normalize_runs_ok[of e "stored_runs data"] assms(2) runs by auto
  then have a: "dget r ''run_id'' = JStr k" and b: "map_of r ''runID'' = None"
    by (auto simp: dget_def map_of_eq_None_iff)
  obtain key val where kv: "(key, val) \<in> set (stored_runs data)"
      and nr: "normalize_record e key val = (k, r)"
    using normalize_runs_origin assms(2) runs by blast
  from nr have "let d = (case val of JObj d \<Rightarrow> d | _ \<Rightarrow> [(''value'', val)])
             in k = (if truthy (dget d ''run_id'') then py_str (repr e) (dget d ''run_id'')
                     else if truthy (dget d ''runID'') then py_str (repr e) (dget d ''runID'')
                     else key) \<and>
                r = AList.delete ''runID'' (AList.update ''run_id'' (JStr k) d)"
    by (auto simp: normalize_record_def Let_def py_or_def)
  with a b kv show ?thesis by blast
qed

lemma load_legacy_world: "load_state env0 legacy_world = Inr (legacy_data, legacy_runs)"
  by (simp add: load_state_def load_json_def legacy_world_def legacy_data_def legacy_runs_def
      stored_runs_def dget_def normalize_runs_def normalize_record_def py_or_def env0_def Let_def)

theorem load_state_normalized_witness:
  "load_state env0 legacy_world = Inr (legacy_data, legacy_runs) \<and>
   (''legacy'', [(''workflow'', JStr ''llm''), (''run_id'', JStr ''legacy'')]) \<in> set legacy_runs \<and>
   dget [(''workflow'', JStr ''llm''), (''run_id'', JStr ''legacy'')] ''run_id'' = JStr ''legacy'' \<and>
   map_of [(''workflow'', JStr ''llm''), (''run_id'', JStr ''legacy'')] ''runID'' = None"
proof -
  have h1: "load_state env0 legacy_world = Inr (legacy_data, legacy_runs)"
    by (rule load_legacy_world)
  have h2: "(''legacy'', [(''workflow'', JStr ''llm''), (''run_id'', JStr ''legacy'')]) \<in> set legacy_runs"
    by (simp add: legacy_runs_def)
  show ?thesis using load_state_normalized[OF h1 h2] h1 h2 by blast
qed

section \<open>Creating a run that exists\<close>

text \<open>
  Claim C8. When the registry holds a run under \<open>run_id\<close>, \<^verbatim>\<open>create_run_entry\<close> raises
  \<^verbatim>\<open>ValueError("Run ... already exists")\<close> and leaves the world as it was: nothing is
  written, so the file and the record in it are unchanged.
\<close>

theorem create_run_entry_duplicate:
  assumes "load_state e w = Inr (data, runs)" and "map_of runs run_id = Some run"
  shows "create_run_entry e w run_id record =
           (Inl (ValueError (''Run '' @ run_id @ '' already exists'')), w)"
  using assms by (simp add: create_run_entry_def)

theorem create_run_entry_duplicate_witness:
  "load_state env0 legacy_world = Inr (legacy_data, legacy_runs) \<and>
   map_of legacy_runs ''legacy'' = Some [(''workflow'', JStr ''llm''), (''run_id'', JStr ''legacy'')] \<and>
   create_run_entry env0 legacy_world ''legacy'' [(''workflow'', JStr ''ctgan'')] =
     (Inl (ValueError ''Run legacy already exists''), legacy_world)"
proof -
  have h1: "load_state env0 legacy_world = Inr (legacy_data, legacy_runs)"
    by (rule load_legacy_world)
  have h2: "map_of legacy_runs ''legacy'' = Some [(''workflow'', JStr ''llm''), (''run_id'', JStr ''legacy'')]"
    by (simp add: legacy_runs_def)
  show ?thesis
    using create_run_entry_duplicate[OF h1 h2, of "[(''workflow'', JStr ''ctgan'')]"] h1 h2 by simp
qed

section \<open>Backfill of the result object\<close>

text \<open>A state that has been saved is loaded back as it was: normalizing it changes nothing.\<close>

lemma normalize_record_fixed:
  assumes "map_of r ''run_id'' = Some (JStr k)" and "''runID'' \<notin> fst ` set r"
  shows "normalize_record e k (JObj r) = (k, r)"
proof -
  have a: "dget r ''run_id'' = JStr k" using assms(1) by (simp add: dget_def)
  have "map_of r ''runID'' = None" using assms(2) by (simp add: map_of_eq_None_iff)
  then have b: "dget r ''runID'' = JNull" by (simp add: dget_def)
  have c: "py_str (repr e) (py_or (py_or (dget r ''run_id'') (dget r ''runID'')) (JStr k)) = k"
    by (cases "k = []") (simp_all add: a b py_or_def)
  show ?thesis
    unfolding normalize_record_def Let_def using assms
    by (simp add: c AList.update_triv)
qed

lemma normalize_loop_fixed:
  "\<forall>(k, r) \<in> set rs. map_of r ''run_id'' = Some (JStr k) \<and> ''runID'' \<notin> fst ` set r \<Longrightarrow>
   distinct (map fst rs) \<Longrightarrow> fst ` set rs \<inter> fst ` set acc = {} \<Longrightarrow>
   normalize_loop e (map (\<lambda>(k, r). (k, JObj r)) rs) acc = acc @ rs"
proof (induction rs arbitrary: acc)
  case Nil
  then show ?case by simp
next
  case (Cons kr rs)
  obtain k r where kr: "kr = (k, r)" by (cases kr)
  have nr: "normalize_record e k (JObj r) = (k, r)"
    using Cons.prems(1) by (intro normalize_record_fixed) (auto simp: kr)
  have fresh: "k \<notin> fst ` set acc" using Cons.prems(3) by (auto simp: kr)
  have upd: "AList.update k r acc = acc @ [(k, r)]" using fresh by (rule update_fresh)
  have "normalize_loop e (map (\<lambda>(k, r). (k, JObj r)) rs) (acc @ [(k, r)]) = (acc @ [(k, r)]) @ rs"
    using Cons.prems by (intro Cons.IH) (auto simp: kr)
  then show ?case by (simp add: kr nr upd)
qed

lemma load_state_saved:
  assumes "\<forall>(k, r) \<in> set runs. map_of r ''run_id'' = Some (JStr k) \<and> ''runID'' \<notin> fst ` set r"
    and "distinct (map fst runs)"
  shows "load_state e (save_json (state_json (data, runs)) w) =
           Inr (AList.update ''runs'' (JObj (map (\<lambda>(k, r). (k, JObj r)) runs)) data, runs)"
proof -
  have "normalize_runs e (map (\<lambda>(k, r). (k, JObj r)) runs) = runs"
    unfolding normalize_runs_def using normalize_loop_fixed[OF assms, of "[]" e] by simp
  then show ?thesis
    by (simp add: load_state_def load_json_def save_json_def state_json_def stored_runs_def dget_update)
qed

text \<open>
  Claim C3, as the code has it. The backfill also requires the record to have
  parameters (\<^verbatim>\<open>not run.get("parameters")\<close> ends it). For a run of the loaded registry
  without a result object, with parameters, of workflow \<^verbatim>\<open>llm\<close> or \<^verbatim>\<open>ctgan\<close> and with
  a non-empty input file name, \<^verbatim>\<open>get_run\<close> returns the record with \<^verbatim>\<open>result_object\<close>
  set to \<^verbatim>\<open>"output/"\<close> followed by that name and writes the file once; a second
  \<^verbatim>\<open>get_run\<close> returns the same record and leaves the world as it is: no write.
\<close>

theorem backfill_converges:
  assumes "load_state e w = Inr (data, runs)" and "map_of runs run_id = Some run"
    and "\<not> truthy (dget run ''result_object'')" and "truthy (dget run ''parameters'')"
    and "dget run ''workflow'' = JStr ''llm'' \<or> dget run ''workflow'' = JStr ''ctgan''"
    and "dget run ''input_file_name'' = JStr name" and "name \<noteq> []"
  shows "let (r1, w1) = entries_get_run e w run_id;
             (r2, w2) = entries_get_run e w1 run_id
         in r1 = Inr (Some (AList.update ''result_object'' (JStr (''output/'' @ name)) run)) \<and>
            trace w1 = trace w @ [Write_entries (the (entries_file w1))] \<and>
            r2 = r1 \<and> w2 = w1"
proof -
  define run' where "run' = AList.update ''result_object'' (JStr (''output/'' @ name)) run"
  define runs' where "runs' = AList.update run_id run' runs"
  define w1 where "w1 = save_json (state_json (data, runs')) w"
  have bf: "backfill_result_object e run = (True, run')"
    using assms(3-7) by (auto simp: backfill_result_object_def run'_def)
  have ne: "run \<noteq> []" using assms(4) by (auto simp: dget_def)
  have first: "entries_get_run e w run_id = (Inr (Some run'), w1)"
    using assms(1,2) ne bf by (simp add: entries_get_run_def w1_def runs'_def)
  have runs: "runs = normalize_runs e (stored_runs data)"
    using assms(1) by (simp add: load_state_runs)
  have ok: "\<forall>(k, r) \<in> set runs. map_of r ''run_id'' = Some (JStr k) \<and> ''runID'' \<notin> fst ` set r"
    and dist: "distinct (map fst runs)"
    using normalize_runs_ok[of e "stored_runs data"] runs by auto
  have "(run_id, run) \<in> set runs" using assms(2) by (rule map_of_SomeD)
  then have okr: "map_of run ''run_id'' = Some (JStr run_id) \<and> ''runID'' \<notin> fst ` set run"
    using ok by auto
  have okr': "map_of run' ''run_id'' = Some (JStr run_id) \<and> ''runID'' \<notin> fst ` set run'"
    using okr by (simp add: run'_def AList.update_conv' AList.dom_update)
  have ok': "\<forall>(k, r) \<in> set runs'. map_of r ''run_id'' = Some (JStr k) \<and> ''runID'' \<notin> fst ` set r"
    using ok okr' unfolding runs'_def by (auto dest: in_set_update)
  have dist': "distinct (map fst runs')"
    using dist by (simp add: runs'_def AList.distinct_update)
  have ld: "load_state e w1 =
      Inr (AList.update ''runs'' (JObj (map (\<lambda>(k, r). (k, JObj r)) runs')) data, runs')"
    unfolding w1_def using ok' dist' by (rule load_state_saved)
  have look: "map_of runs' run_id = Some run'" by (simp add: runs'_def AList.update_conv')
  have ne': "run' \<noteq> []" using okr' by auto
  have bf': "backfill_result_object e run' = (False, run')"
    using assms(7) by (simp add: backfill_result_object_def run'_def dget_update)
  have second: "entries_get_run e w1 run_id = (Inr (Some run'), w1)"
    using ld look ne' bf' by (simp add: entries_get_run_def)
  have tr: "trace w1 = trace w @ [Write_entries (the (entries_file w1))]"
    by (simp add: w1_def save_json_def)
  show ?thesis using first second tr by (simp add: run'_def)
qed

lemma load_llm_world: "load_state env0 llm_world = Inr ([(''runs'', JObj [(''r1'', JObj llm_run)])], [(''r1'', llm_run)])"
  by (simp add: load_state_def load_json_def llm_world_def llm_run_def
      stored_runs_def dget_def normalize_runs_def normalize_record_def py_or_def env0_def Let_def)

theorem backfill_converges_witness:
  "load_state env0 llm_world = Inr ([(''runs'', JObj [(''r1'', JObj llm_run)])], [(''r1'', llm_run)]) \<and>
   dget llm_run ''result_object'' = JNull \<and> truthy (dget llm_run ''parameters'') \<and>
   dget llm_run ''workflow'' = JStr ''llm'' \<and>
   dget llm_run ''input_file_name'' = JStr ''x.csv'' \<and>
   fst (entries_get_run env0 llm_world ''r1'') = Inr (Some (llm_run @ [(''result_object'', JStr ''output/x.csv'')])) \<and>
   entries_get_run env0 (snd (entries_get_run env0 llm_world ''r1'')) ''r1'' = entries_get_run env0 llm_world ''r1''"
proof -
  have h1: "load_state env0 llm_world = Inr ([(''runs'', JObj [(''r1'', JObj llm_run)])], [(''r1'', llm_run)])"
    by (rule load_llm_world)
  have h2: "map_of [(''r1'', llm_run)] ''r1'' = Some llm_run" by simp
  have h3: "\<not> truthy (dget llm_run ''result_object'')" by (simp add: llm_run_def dget_def)
  have h4: "truthy (dget llm_run ''parameters'')" by (simp add: llm_run_def dget_def)
  have h5: "dget llm_run ''workflow'' = JStr ''llm'' \<or> dget llm_run ''workflow'' = JStr ''ctgan''"
    by (simp add: llm_run_def dget_def)
  have h6: "dget llm_run ''input_file_name'' = JStr ''x.csv''" by (simp add: llm_run_def dget_def)
  have h7: "''x.csv'' \<noteq> []" by simp
  have upd: "AList.update ''result_object'' (JStr ''output/x.csv'') llm_run = llm_run @ [(''result_object'', JStr ''output/x.csv'')]"
    by (simp add: llm_run_def)
  have h3': "dget llm_run ''result_object'' = JNull" by (simp add: llm_run_def dget_def)
  have h5': "dget llm_run ''workflow'' = JStr ''llm''" by (simp add: llm_run_def dget_def)
  show ?thesis
    using backfill_converges[OF h1 h2 h3 h4 h5 h6 h7] h1 h3' h4 h5' h6 upd
    by (auto simp: Let_def split: prod.splits)
qed

text \<open>
  The claim as stated fails for a record without parameters: it is returned as stored,
  without \<^verbatim>\<open>result_object\<close>, and nothing is written.
\<close>

lemma load_bare_world: "load_state env0 bare_world = Inr ([(''runs'', JObj [(''r1'', JObj bare_run)])], [(''r1'', bare_run)])"
  by (simp add: load_state_def load_json_def bare_world_def bare_run_def
      stored_runs_def dget_def normalize_runs_def normalize_record_def py_or_def env0_def Let_def)

theorem backfill_without_parameters:
  "load_state env0 bare_world = Inr ([(''runs'', JObj [(''r1'', JObj bare_run)])], [(''r1'', bare_run)]) \<and>
   map_of bare_run ''result_object'' = None \<and>
   dget bare_run ''workflow'' = JStr ''llm'' \<and>
   dget bare_run ''input_file_name'' = JStr ''x.csv'' \<and>
   entries_get_run env0 bare_world ''r1'' = (Inr (Some bare_run), bare_world) \<and>
   dget bare_run ''result_object'' \<noteq> JStr ''output/x.csv''"
proof -
  have a: "backfill_result_object env0 bare_run = (False, bare_run)"
    by (simp add: backfill_result_object_def bare_run_def dget_def)
  have b: "bare_run \<noteq> []" by (simp add: bare_run_def)
  have c: "entries_get_run env0 bare_world ''r1'' = (Inr (Some bare_run), bare_world)"
    using a b by (simp add: entries_get_run_def load_bare_world)
  show ?thesis using c load_bare_world by (simp add: bare_run_def dget_def)
qed

section \<open>Filling the parameters of a template\<close>

lemma fill_parameters_map:
  "fill_parameters rp (Some ps) ts =
     map (\<lambda>t. t\<lparr>input_parameters := map (fill_param rp ps) (input_parameters t)\<rparr>) ts"
proof (cases "ps = []")
  case True
  have "\<And>p::'a param_scheme. fill_param rp [] p = p"
    by (simp add: fill_param_def split: option.splits)
  then show ?thesis using True by (simp add: fill_parameters_def map_idI)
next
  case False
  then show ?thesis by (simp add: fill_parameters_def)
qed

lemma fill_param_agree:
  assumes "\<And>n. param_name p = Some n \<Longrightarrow> map_of ps n = map_of ps' n"
  shows "fill_param rp ps p = fill_param rp ps' p"
  using assms by (simp add: fill_param_def split: option.splits)

text \<open>
  Claim C4, as the code has it. The test of \<^verbatim>\<open>create_run\<close> is
  \<^verbatim>\<open>name in parameters and parameters[name] is not None\<close>: a declared parameter is
  overwritten with \<^verbatim>\<open>str\<close> of the caller's value exactly when the caller's mapping has
  its name with a value other than \<^verbatim>\<open>None\<close>; an empty string is such a value. The
  templates, their number of parameters, and everything else in them stay as they are.
  Two mappings that agree on the declared names give the same filled templates, so a
  parameter that no template declares has no effect.
\<close>

theorem fill_parameters_overwrites:
  fixes ts :: "('p, 't) template_scheme list"
  shows
  "fill_parameters rp None ts = ts \<and>
   length (fill_parameters rp (Some ps) ts) = length ts \<and>
   (\<forall>i < length ts.
      template.more (fill_parameters rp (Some ps) ts ! i) = template.more (ts ! i) \<and>
      length (input_parameters (fill_parameters rp (Some ps) ts ! i)) = length (input_parameters (ts ! i)) \<and>
      (\<forall>j < length (input_parameters (ts ! i)).
         input_parameters (fill_parameters rp (Some ps) ts ! i) ! j =
           (let p = input_parameters (ts ! i) ! j
            in case param_name p of
                 None \<Rightarrow> p
               | Some name \<Rightarrow>
                   (case map_of ps name of
                      None \<Rightarrow> p
                    | Some v \<Rightarrow> if v \<noteq> JNull then p\<lparr>param_value := Some (JStr (py_str rp v))\<rparr> else p)))) \<and>
   (\<forall>ps'. (\<forall>name \<in> declared_names ts. map_of ps' name = map_of ps name) \<longrightarrow>
            fill_parameters rp (Some ps') ts = fill_parameters rp (Some ps) ts)"
proof (intro conjI allI impI)
  show "fill_parameters rp None ts = ts"
    by (simp add: fill_parameters_def)
next
  show "length (fill_parameters rp (Some ps) ts) = length ts"
    by (simp add: fill_parameters_map)
next
  fix i assume "i < length ts"
  then show "template.more (fill_parameters rp (Some ps) ts ! i) = template.more (ts ! i)"
    by (simp add: fill_parameters_map)
next
  fix i assume "i < length ts"
  then show "length (input_parameters (fill_parameters rp (Some ps) ts ! i)) = length (input_parameters (ts ! i))"
    by (simp add: fill_parameters_map)
next
  fix i j assume "i < length ts" "j < length (input_parameters (ts ! i))"
  then show "input_parameters (fill_parameters rp (Some ps) ts ! i) ! j =
           (let p = input_parameters (ts ! i) ! j
            in case param_name p of
                 None \<Rightarrow> p
               | Some name \<Rightarrow>
                   (case map_of ps name of
                      None \<Rightarrow> p
                    | Some v \<Rightarrow> if v \<noteq> JNull then p\<lparr>param_value := Some (JStr (py_str rp v))\<rparr> else p))"
    by (simp add: fill_parameters_map fill_param_def Let_def)
next
  fix ps' assume a: "\<forall>name \<in> declared_names ts. map_of ps' name = map_of ps name"
  have "\<And>t p. t \<in> set ts \<Longrightarrow> p \<in> set (input_parameters t) \<Longrightarrow> fill_param rp ps' p = fill_param rp ps p"
  proof (rule fill_param_agree)
    fix t p n assume "t \<in> set ts" "p \<in> set (input_parameters t)" "param_name p = Some n"
    then have "n \<in> declared_names ts" by (auto simp: declared_names_def)
    then show "map_of ps' n = map_of ps n" using a by simp
  qed
  then show "fill_parameters rp (Some ps') ts = fill_parameters rp (Some ps) ts"
    by (simp add: fill_parameters_map cong: map_cong)
qed

lemma digit_char_5: "digit_char 5 = CHR ''5''"
  by code_simp

theorem fill_parameters_overwrites_witness:
  "fill_parameters (repr env0) (Some [(''no_of_epochs'', JInt 5), (''discrete_columns'', JNull)]) [ctgan_template] =
   fill_parameters (repr env0) (Some [(''no_of_epochs'', JInt 5), (''discrete_columns'', JNull), (''extra'', JStr ''x'')]) [ctgan_template] \<and>
   fill_parameters (repr env0) (Some [(''no_of_epochs'', JInt 5), (''discrete_columns'', JNull), (''extra'', JStr ''x'')]) [ctgan_template] =
     [\<lparr>input_parameters =
        [\<lparr>param_name = Some ''discrete_columns'', param_value = Some (JStr ''a,b'')\<rparr>,
         \<lparr>param_name = Some ''no_of_epochs'', param_value = Some (JStr ''5'')\<rparr>]\<rparr>]"
proof -
  have a: "\<forall>name \<in> declared_names [ctgan_template].
      map_of [(''no_of_epochs'', JInt 5), (''discrete_columns'', JNull)] name =
      map_of [(''no_of_epochs'', JInt 5), (''discrete_columns'', JNull), (''extra'', JStr ''x'')] name"
    by (auto simp: declared_names_def ctgan_template_def)
  have b: "fill_parameters (repr env0) (Some [(''no_of_epochs'', JInt 5), (''discrete_columns'', JNull)]) [ctgan_template] =
   fill_parameters (repr env0) (Some [(''no_of_epochs'', JInt 5), (''discrete_columns'', JNull), (''extra'', JStr ''x'')]) [ctgan_template]"
    using fill_parameters_overwrites[where rp = "repr env0" and ts = "[ctgan_template]"
        and ps = "[(''no_of_epochs'', JInt 5), (''discrete_columns'', JNull), (''extra'', JStr ''x'')]"] a
    by blast
  have c: "fill_parameters (repr env0) (Some [(''no_of_epochs'', JInt 5), (''discrete_columns'', JNull), (''extra'', JStr ''x'')]) [ctgan_template] =
     [\<lparr>input_parameters =
        [\<lparr>param_name = Some ''discrete_columns'', param_value = Some (JStr ''a,b'')\<rparr>,
         \<lparr>param_name = Some ''no_of_epochs'', param_value = Some (JStr ''5'')\<rparr>]\<rparr>]"
    by (simp add: fill_parameters_def fill_param_def ctgan_template_def str_int_def digit_char_5)
  show ?thesis using b c by blast
qed

text \<open>
  The claim as stated fails for an empty value: the caller's empty string replaces the
  template's default \<^verbatim>\<open>"a,b"\<close>.
\<close>

theorem fill_parameters_empty_string:
  "\<not> truthy (JStr []) \<and>
   fill_parameters (repr env0) (Some [(''discrete_columns'', JStr [])]) [ctgan_template] =
     [\<lparr>input_parameters =
        [\<lparr>param_name = Some ''discrete_columns'', param_value = Some (JStr [])\<rparr>,
         \<lparr>param_name = Some ''no_of_epochs'', param_value = Some (JInt 300)\<rparr>]\<rparr>]"
  by (simp add: fill_parameters_def fill_param_def ctgan_template_def)

section \<open>The pod nodes of a document\<close>

lemma pod_entries_filter_map:
  "pod_entries ns =
     map (\<lambda>n. (str_or (node_startedAt n) [],
                str_or (node_displayName n) (str_or (node_name n) (str_or (node_podName n) [])),
                str_or (node_podName n) [],
                case node_phase n of None \<Rightarrow> ''Unknown'' | Some ph \<Rightarrow> ph))
         (filter (\<lambda>n. str_or (node_podName n) [] \<noteq> []) ns)"
  by (induction ns) (simp_all add: Let_def)

lemma pod_entries_mset:
  "mset ns' = mset ns \<Longrightarrow> mset (pod_entries ns') = mset (pod_entries ns)"
  by (simp add: pod_entries_filter_map)

lemma pod_sections_length:
  "length (fst (pod_sections e w name tail nodes)) = length nodes"
proof (induction nodes arbitrary: w)
  case Nil
  then show ?case by simp
next
  case (Cons nd nodes)
  obtain d p ph where nd: "nd = (d, p, ph)" by (cases nd)
  obtain body w1 where pb: "pod_body e w name tail p = (body, w1)" by (cases "pod_body e w name tail p")
  obtain secs w2 where ps: "pod_sections e w1 name tail nodes = (secs, w2)"
    by (cases "pod_sections e w1 name tail nodes")
  from Cons.IH[of w1] show ?case by (simp add: nd pb ps)
qed

section \<open>The log of one pod\<close>

lemma fetch_main:
  "fetch_logs_from_argo e w name tail (Some pod) None =
     (log_response e (length (trace w)) (pod_query name tail pod ''main''),
      issue w [Get_log (pod_query name tail pod ''main'')])"
  by (simp add: fetch_logs_from_argo_def pod_query_def issue_def Let_def split: sum.splits)

lemma fetch_wait_main:
  "fetch_logs_from_argo e w name tail (Some pod) (Some [''wait'', ''main'']) =
     (case log_response e (length (trace w)) (pod_query name tail pod ''wait'') of
        Inr text \<Rightarrow> (Inr text, issue w [Get_log (pod_query name tail pod ''wait'')])
      | Inl exc \<Rightarrow>
          (log_response e (length (trace w) + 1) (pod_query name tail pod ''main''),
           issue w [Get_log (pod_query name tail pod ''wait''), Get_log (pod_query name tail pod ''main'')]))"
  by (simp add: fetch_logs_from_argo_def pod_query_def issue_def Let_def split: sum.splits)

lemma issue_issue: "issue (issue w xs) ys = issue w (xs @ ys)"
  by (simp add: issue_def)

lemma trace_issue: "trace (issue w xs) = trace w @ xs"
  by (simp add: issue_def)

lemma pod_body_unfold:
  "pod_body e w name tail pod =
     (case log_response e (length (trace w)) (pod_query name tail pod ''main'') of
        Inl exc \<Rightarrow> (failure_body e pod exc, issue w [Get_log (pod_query name tail pod ''main'')])
      | Inr text \<Rightarrow>
          if strip text \<noteq> [] then (strip text, issue w [Get_log (pod_query name tail pod ''main'')])
          else
            (case log_response e (length (trace w) + 1) (pod_query name tail pod ''wait'') of
               Inr text2 \<Rightarrow>
                 (if strip text2 \<noteq> [] then strip text2 else ''(no log output yet)'',
                  issue w [Get_log (pod_query name tail pod ''main''),
                           Get_log (pod_query name tail pod ''wait'')])
             | Inl exc2 \<Rightarrow>
                 (case log_response e (length (trace w) + 2) (pod_query name tail pod ''main'') of
                    Inr text3 \<Rightarrow>
                      (if strip text3 \<noteq> [] then strip text3 else ''(no log output yet)'',
                       issue w [Get_log (pod_query name tail pod ''main''),
                                Get_log (pod_query name tail pod ''wait''),
                                Get_log (pod_query name tail pod ''main'')])
                  | Inl exc3 \<Rightarrow>
                      (failure_body e pod exc3,
                       issue w [Get_log (pod_query name tail pod ''main''),
                                Get_log (pod_query name tail pod ''wait''),
                                Get_log (pod_query name tail pod ''main'')]))))"
  by (simp add: pod_body_def fetch_main fetch_wait_main issue_issue trace_issue split: sum.splits)


lemma quiet_wait_responses:
  "log_response env_quiet_wait 0 (pod_query ''wf'' None ''pod-1'' ''main'') = Inr '' ''"
  "log_response env_quiet_wait 1 (pod_query ''wf'' None ''pod-1'' ''wait'') = Inr []"
  "log_response env_quiet_wait 2 (pod_query ''wf'' None ''pod-1'' ''main'') = Inr ''hello''"
  by (simp_all add: log_response_def env_quiet_wait_def env0_def pod_query_def log_params_def is_http_error_def)

lemma strip_blank: "strip '' '' = []" "strip [] = []"
  by code_simp+

text \<open>
  Claim C5, as the code has it. For a pod, the logs of the container \<^verbatim>\<open>main\<close> are
  requested first. A failure of that request gives the failure placeholder, a text that
  is not blank gives that text, trimmed. After a blank text there is one retry: \<^verbatim>\<open>wait\<close>
  is requested, and \<^verbatim>\<open>main\<close> again only when the request for \<^verbatim>\<open>wait\<close> failed. The
  first of these replies that is no error is the result of the retry, blank or not: its
  trimmed text is the body, and \<^verbatim>\<open>(no log output yet)\<close> when that is empty. When both
  requests of the retry fail, the body is the failure placeholder. No other request is
  issued.
\<close>

theorem pod_body_requests:
  "pod_body e w name tail pod =
     (case log_response e (length (trace w)) (pod_query name tail pod ''main'') of
        Inl exc \<Rightarrow> (failure_body e pod exc, issue w [Get_log (pod_query name tail pod ''main'')])
      | Inr text \<Rightarrow>
          if strip text \<noteq> [] then (strip text, issue w [Get_log (pod_query name tail pod ''main'')])
          else
            (case log_response e (length (trace w) + 1) (pod_query name tail pod ''wait'') of
               Inr text2 \<Rightarrow>
                 (if strip text2 \<noteq> [] then strip text2 else ''(no log output yet)'',
                  issue w [Get_log (pod_query name tail pod ''main''),
                           Get_log (pod_query name tail pod ''wait'')])
             | Inl exc2 \<Rightarrow>
                 (case log_response e (length (trace w) + 2) (pod_query name tail pod ''main'') of
                    Inr text3 \<Rightarrow>
                      (if strip text3 \<noteq> [] then strip text3 else ''(no log output yet)'',
                       issue w [Get_log (pod_query name tail pod ''main''),
                                Get_log (pod_query name tail pod ''wait''),
                                Get_log (pod_query name tail pod ''main'')])
                  | Inl exc3 \<Rightarrow>
                      (failure_body e pod exc3,
                       issue w [Get_log (pod_query name tail pod ''main''),
                                Get_log (pod_query name tail pod ''wait''),
                                Get_log (pod_query name tail pod ''main'')]))))"
  by (rule pod_body_unfold)

theorem pod_body_requests_witness:
  "pod_body env_quiet_wait (issue world0 [Get_workflow ''wf'']) ''wf'' None ''pod-1'' =
     (''hello'', issue world0 [Get_workflow ''wf'', Get_log (pod_query ''wf'' None ''pod-1'' ''main'')])"
proof -
  have a: "log_response env_quiet_wait (length (trace (issue world0 [Get_workflow ''wf''])))
             (pod_query ''wf'' None ''pod-1'' ''main'') = Inr ''hello''"
    by (simp add: log_response_def env_quiet_wait_def env0_def pod_query_def log_params_def
        is_http_error_def issue_def world0_def)
  have b: "strip ''hello'' = ''hello''" by code_simp
  show ?thesis
    using pod_body_requests[of env_quiet_wait "issue world0 [Get_workflow ''wf'']" "''wf''" None "''pod-1''"]
    by (simp add: a b issue_issue)
qed

text \<open>
  The claim as stated fails when the \<^verbatim>\<open>wait\<close> container answers with an empty text:
  that reply ends the retry, \<^verbatim>\<open>main\<close> is not requested again although it would
  answer \<^verbatim>\<open>hello\<close>, and the body is the placeholder.
\<close>

theorem pod_body_skips_main:
  "log_response env_quiet_wait 0 (pod_query ''wf'' None ''pod-1'' ''main'') = Inr '' '' \<and>
   log_response env_quiet_wait 1 (pod_query ''wf'' None ''pod-1'' ''wait'') = Inr [] \<and>
   log_response env_quiet_wait 2 (pod_query ''wf'' None ''pod-1'' ''main'') = Inr ''hello'' \<and>
   pod_body env_quiet_wait world0 ''wf'' None ''pod-1'' =
     (''(no log output yet)'',
      issue world0 [Get_log (pod_query ''wf'' None ''pod-1'' ''main''),
                    Get_log (pod_query ''wf'' None ''pod-1'' ''wait'')])"
proof -
  have t: "length (trace world0) = 0" by (simp add: world0_def)
  have "pod_body env_quiet_wait world0 ''wf'' None ''pod-1'' =
     (''(no log output yet)'',
      issue world0 [Get_log (pod_query ''wf'' None ''pod-1'' ''main''),
                    Get_log (pod_query ''wf'' None ''pod-1'' ''wait'')])"
    using quiet_wait_responses by (simp add: pod_body_unfold t strip_blank)
  then show ?thesis using quiet_wait_responses by simp
qed

section \<open>The sections of the log\<close>

lemma pod_sections_append:
  "pod_sections e w name tail (xs @ ys) =
     (fst (pod_sections e w name tail xs) @
        fst (pod_sections e (snd (pod_sections e w name tail xs)) name tail ys),
      snd (pod_sections e (snd (pod_sections e w name tail xs)) name tail ys))"
proof (induction xs arbitrary: w)
  case Nil
  then show ?case by simp
next
  case (Cons nd xs)
  obtain d p ph where nd: "nd = (d, p, ph)" by (cases nd)
  obtain body w1 where pb: "pod_body e w name tail p = (body, w1)" by (cases "pod_body e w name tail p")
  show ?case by (simp add: nd pb Cons.IH[of w1] split: prod.splits)
qed

lemma pod_sections_nth:
  assumes "i < length nodes" and "nodes ! i = (d, p, ph)"
  shows "fst (pod_sections e w name tail nodes) ! i =
           section_header d p ph @ newline @
             fst (pod_body e (snd (pod_sections e w name tail (take i nodes))) name tail p)"
proof -
  have split: "nodes = take i nodes @ (d, p, ph) # drop (Suc i) nodes"
    using assms by (metis id_take_nth_drop)
  have len: "length (fst (pod_sections e w name tail (take i nodes))) = i"
    using assms(1) by (simp add: pod_sections_length)
  let ?w = "snd (pod_sections e w name tail (take i nodes))"
  have "fst (pod_sections e w name tail nodes) =
          fst (pod_sections e w name tail (take i nodes)) @
          fst (pod_sections e ?w name tail ((d, p, ph) # drop (Suc i) nodes))"
    by (subst split) (simp add: pod_sections_append)
  then have "fst (pod_sections e w name tail nodes) ! i =
          fst (pod_sections e ?w name tail ((d, p, ph) # drop (Suc i) nodes)) ! 0"
    using len by (simp add: nth_append)
  also have "\<dots> = section_header d p ph @ newline @ fst (pod_body e ?w name tail p)"
    by (simp add: split: prod.splits)
  finally show ?thesis .
qed

lemma join_contains:
  "s \<in> set xs \<Longrightarrow> \<exists>a b. join sep xs = a @ s @ b"
proof (induction sep xs rule: join.induct)
  case (1 sep)
  then show ?case by simp
next
  case (2 sep x)
  then have "join sep [x] = [] @ s @ []" by simp
  then show ?case by blast
next
  case (3 sep x y ys)
  show ?case
  proof (cases "s = x")
    case True
    then have "join sep (x # y # ys) = [] @ s @ (sep @ join sep (y # ys))" by simp
    then show ?thesis by blast
  next
    case False
    then have "s \<in> set (y # ys)" using 3 by simp
    then obtain a b where "join sep (y # ys) = a @ s @ b" using 3 by blast
    then have "join sep (x # y # ys) = (x @ sep @ a) @ s @ b" by simp
    then show ?thesis by blast
  qed
qed

lemma log_sections_has_pod_sections:
  "set (fst (pod_sections e w name tail nodes)) \<subseteq> set (fst (log_sections e w name tail nodes))"
  by (auto simp: log_sections_def Let_def split: prod.splits sum.splits)

lemma get_workflow_logs_sections:
  assumes "get_workflow e w name = (Inr (Some doc), w1)" and "extract_pod_nodes doc \<noteq> []"
  shows "get_workflow_logs e w name tail =
           (Inr (join (newline @ newline) (fst (log_sections e w1 name tail (extract_pod_nodes doc)))),
            snd (log_sections e w1 name tail (extract_pod_nodes doc)))"
  using assms by (simp add: get_workflow_logs_def Let_def split: prod.splits)


lemma section_in_output:
  assumes "get_workflow e w name = (Inr (Some doc), w1)"
    and "i < length (extract_pod_nodes doc)" and "extract_pod_nodes doc ! i = (d, p, ph)"
    and "fst (pod_body e (snd (pod_sections e w1 name tail (take i (extract_pod_nodes doc)))) name tail p) = body"
    and "get_workflow_logs e w name tail = (Inr out, w')"
  shows "\<exists>a b. out = a @ (section_header d p ph @ newline @ body) @ b"
proof -
  let ?nodes = "extract_pod_nodes doc"
  have ne: "?nodes \<noteq> []" using assms(2) by auto
  have out: "out = join (newline @ newline) (fst (log_sections e w1 name tail ?nodes))"
    using get_workflow_logs_sections[OF assms(1) ne, of tail] assms(5) by simp
  have "fst (pod_sections e w1 name tail ?nodes) ! i = section_header d p ph @ newline @ body"
    using pod_sections_nth[OF assms(2,3), of e w1 name tail] assms(4) by simp
  moreover have "i < length (fst (pod_sections e w1 name tail ?nodes))"
    using assms(2) by (simp add: pod_sections_length)
  ultimately have "section_header d p ph @ newline @ body \<in> set (fst (pod_sections e w1 name tail ?nodes))"
    by (metis nth_mem)
  then have "section_header d p ph @ newline @ body \<in> set (fst (log_sections e w1 name tail ?nodes))"
    using log_sections_has_pod_sections by blast
  then show ?thesis unfolding out by (rule join_contains)
qed

section \<open>The order of the sections in the text\<close>

lemma join_Cons: "join sep (x # xs) = x @ (if xs = [] then [] else sep @ join sep xs)"
  by (cases xs) simp_all

lemma join_append_Cons:
  "\<exists>a. join sep (pre @ x # post) = a @ x @ (if post = [] then [] else sep @ join sep post)"
proof (induction pre)
  case Nil
  have "join sep ([] @ x # post) = [] @ x @ (if post = [] then [] else sep @ join sep post)"
    by (simp add: join_Cons)
  then show ?case by blast
next
  case (Cons p pre)
  then obtain a where a: "join sep (pre @ x # post) = a @ x @ (if post = [] then [] else sep @ join sep post)"
    by blast
  have "join sep ((p # pre) @ x # post) = p @ sep @ join sep (pre @ x # post)"
    by (simp add: join_Cons)
  then have "join sep ((p # pre) @ x # post) = (p @ sep @ a) @ x @ (if post = [] then [] else sep @ join sep post)"
    using a by simp
  then show ?case by blast
qed

lemma join_in_order:
  assumes "i < j" and "j < length xs"
  shows "\<exists>a m b. join sep xs = a @ xs ! i @ m @ xs ! j @ b"
proof -
  let ?post = "drop (Suc i) xs"
  have i: "i < length xs" using assms by simp
  have split: "xs = take i xs @ xs ! i # ?post" using i by (simp add: id_take_nth_drop)
  have "xs ! j = ?post ! (j - Suc i)" using assms by simp
  moreover have "j - Suc i < length ?post" using assms by simp
  ultimately have mem: "xs ! j \<in> set ?post" by (metis nth_mem)
  then have ne: "?post \<noteq> []" by auto
  obtain a where a: "join sep (take i xs @ xs ! i # ?post) = a @ xs ! i @ (sep @ join sep ?post)"
    using join_append_Cons[of sep "take i xs" "xs ! i" ?post] ne by auto
  obtain c b where b: "join sep ?post = c @ xs ! j @ b" using join_contains[OF mem] by blast
  have "join sep xs = a @ xs ! i @ (sep @ c) @ xs ! j @ b"
    using a b split by simp
  then show ?thesis by blast
qed

lemma log_sections_rest:
  "\<exists>rest. fst (log_sections e w name tail nodes) = fst (pod_sections e w name tail nodes) @ rest \<and>
          (rest = [] \<or> (\<exists>text. rest = [''=== Aggregated workflow logs ==='' @ newline @ text]))"
  by (auto simp: log_sections_def Let_def split: prod.splits sum.splits)

lemma log_response_env:
  "argo_log e' = argo_log e \<Longrightarrow> log_response e' n q = log_response e n q"
  by (simp add: log_response_def)

lemma fetch_loop_env:
  assumes "argo_log e' = argo_log e"
  shows "fetch_loop e' w params cs last_error = fetch_loop e w params cs last_error"
proof (induction cs arbitrary: w params last_error)
  case Nil
  then show ?case by simp
next
  case (Cons c cs)
  show ?case
    by (cases "log_response e (length (trace w)) (params\<lparr>q_container := c\<rparr>)")
       (simp_all add: log_response_env[OF assms] Let_def Cons.IH)
qed

lemma pod_body_env:
  assumes "argo_log e' = argo_log e" and "response_truthy e' = response_truthy e"
  shows "pod_body e' w name tail pod = pod_body e w name tail pod"
proof -
  have f: "\<And>w p cs. fetch_logs_from_argo e' w name tail p cs = fetch_logs_from_argo e w name tail p cs"
    by (simp add: fetch_logs_from_argo_def fetch_loop_env[OF assms(1)])
  have b: "failure_body e' pod exc = failure_body e pod exc" for exc
    using assms(2) by (cases exc) (simp_all add: failure_body_def)
  show ?thesis by (simp add: pod_body_def f b cong: prod.case_cong sum.case_cong if_cong)
qed

lemma pod_sections_env:
  assumes "argo_log e' = argo_log e" and "response_truthy e' = response_truthy e"
  shows "pod_sections e' w name tail nodes = pod_sections e w name tail nodes"
  by (induction nodes arbitrary: w) (auto simp: pod_body_env[OF assms] split: prod.splits)

lemma log_sections_env:
  assumes "argo_log e' = argo_log e" and "response_truthy e' = response_truthy e"
  shows "log_sections e' w name tail nodes = log_sections e w name tail nodes"
  by (simp add: log_sections_def pod_sections_env[OF assms] fetch_logs_from_argo_def
      fetch_loop_env[OF assms(1)])

lemma extract_pod_nodes_shuffled:
  fixes doc doc' :: workflow
  assumes m0: "mset (wf_nodes doc') = mset (wf_nodes doc)"
    and inj: "inj_on fst (set (pod_entries (wf_nodes doc)))"
  shows "extract_pod_nodes doc' = extract_pod_nodes doc"
proof -
  have m: "mset (pod_entries (wf_nodes doc')) = mset (pod_entries (wf_nodes doc))"
    using m0 by (rule pod_entries_mset)
  have s: "set (pod_entries (wf_nodes doc')) = set (pod_entries (wf_nodes doc))"
    using m by (rule mset_eq_setD)
  have inj': "inj_on fst (set (pod_entries (wf_nodes doc')))"
    using inj by (simp only: s)
  have m': "mset (pod_entries (wf_nodes doc')) = mset (sort_key fst (pod_entries (wf_nodes doc)))"
    using m by (simp only: mset_sort)
  have "sort_key fst (pod_entries (wf_nodes doc')) = sort_key fst (pod_entries (wf_nodes doc))"
    using m' inj' sorted_sort_key by (rule sort_key_inj_key_eq)
  then show ?thesis by (simp only: extract_pod_nodes_def)
qed

lemma empty_start_first:
  assumes "sorted (map fst (es :: (string \<times> 'a) list))"
    and "i < length es" and "j < length es" and "fst (es ! i) = []" and "fst (es ! j) \<noteq> []"
  shows "i < j"
proof (rule ccontr)
  assume "\<not> i < j"
  then have ji: "j \<le> i" by simp
  have "map fst es ! j \<le> map fst es ! i"
    using assms(1) ji assms(2) by (intro sorted_nth_mono) simp_all
  then have "fst (es ! j) \<le> fst (es ! i)"
    using assms(2,3) by (simp only: nth_map)
  then have "fst (es ! j) \<le> []" by (simp only: assms(4))
  then have "fst (es ! j) = []" by (cases "fst (es ! j)") simp_all
  then show False using assms(5) by contradiction
qed


lemma log_text_sections:
  assumes "get_workflow e w name = (Inr (Some doc), w1)" and "extract_pod_nodes doc \<noteq> []"
  shows "\<exists>sections rest w'.
        get_workflow_logs e w name tail = (Inr (join (newline @ newline) (sections @ rest)), w') \<and>
        length sections = length (sort_key fst (pod_entries (wf_nodes doc))) \<and>
        (\<forall>i < length (sort_key fst (pod_entries (wf_nodes doc))).
           sections ! i =
             section_header (fst (snd (sort_key fst (pod_entries (wf_nodes doc)) ! i)))
                            (fst (snd (snd (sort_key fst (pod_entries (wf_nodes doc)) ! i))))
                            (snd (snd (snd (sort_key fst (pod_entries (wf_nodes doc)) ! i))))
               @ newline @
               fst (pod_body e
                      (snd (pod_sections e w1 name tail
                              (take i (map snd (sort_key fst (pod_entries (wf_nodes doc)))))))
                      name tail (fst (snd (snd (sort_key fst (pod_entries (wf_nodes doc)) ! i)))))) \<and>
        (rest = [] \<or> (\<exists>text. rest = [''=== Aggregated workflow logs ==='' @ newline @ text])) \<and>
        (\<forall>i j. i < j \<and> j < length (sort_key fst (pod_entries (wf_nodes doc))) \<longrightarrow>
           (\<exists>a m b. join (newline @ newline) (sections @ rest) = a @ sections ! i @ m @ sections ! j @ b))"
proof -
  let ?es = "sort_key fst (pod_entries (wf_nodes doc))"
  let ?nodes = "extract_pod_nodes doc"
  let ?sections = "fst (pod_sections e w1 name tail ?nodes)"
  have nodes: "?nodes = map snd ?es" by (simp add: extract_pod_nodes_def)
  obtain rest where rest: "fst (log_sections e w1 name tail ?nodes) = ?sections @ rest"
    and shape: "rest = [] \<or> (\<exists>text. rest = [''=== Aggregated workflow logs ==='' @ newline @ text])"
    using log_sections_rest[of e w1 name tail ?nodes] by blast
  have out: "get_workflow_logs e w name tail =
               (Inr (join (newline @ newline) (?sections @ rest)),
                snd (log_sections e w1 name tail ?nodes))"
    using get_workflow_logs_sections[OF assms, of tail] rest by simp
  have len: "length ?sections = length ?es"
    by (simp add: pod_sections_length nodes)
  have nth: "?sections ! i =
             section_header (fst (snd (?es ! i))) (fst (snd (snd (?es ! i)))) (snd (snd (snd (?es ! i))))
               @ newline @
               fst (pod_body e (snd (pod_sections e w1 name tail (take i (map snd ?es))))
                      name tail (fst (snd (snd (?es ! i)))))"
    if "i < length ?es" for i
  proof -
    have i: "i < length ?nodes" using that by (simp add: nodes)
    have ni: "?nodes ! i = (fst (snd (?es ! i)), fst (snd (snd (?es ! i))), snd (snd (snd (?es ! i))))"
      using that by (simp add: nodes)
    show ?thesis using pod_sections_nth[OF i ni, of e w1 name tail] by (simp add: nodes)
  qed
  have ord: "\<exists>a m b. join (newline @ newline) (?sections @ rest) = a @ ?sections ! i @ m @ ?sections ! j @ b"
    if "i < j \<and> j < length ?es" for i j
  proof -
    have ij: "i < j" and j: "j < length (?sections @ rest)" using that len by simp_all
    have "(?sections @ rest) ! i = ?sections ! i" "(?sections @ rest) ! j = ?sections ! j"
      using that len by (simp_all add: nth_append)
    then show ?thesis using join_in_order[OF ij j, of "newline @ newline"] by simp
  qed
  show ?thesis using out len nth shape ord by blast
qed

lemma log_text_shuffled:
  fixes doc doc' :: workflow
  assumes "get_workflow e w name = (Inr (Some doc), w1)" and "extract_pod_nodes doc \<noteq> []"
    and "get_workflow e' w name = (Inr (Some doc'), w1)"
    and "argo_log e' = argo_log e" and "response_truthy e' = response_truthy e"
    and "mset (wf_nodes doc') = mset (wf_nodes doc)"
    and "inj_on fst (set (pod_entries (wf_nodes doc)))"
  shows "get_workflow_logs e' w name tail = get_workflow_logs e w name tail"
proof -
  have same: "extract_pod_nodes doc' = extract_pod_nodes doc"
    using assms(6,7) by (rule extract_pod_nodes_shuffled)
  have ne': "extract_pod_nodes doc' \<noteq> []" using assms(2) same by simp
  show ?thesis
    unfolding get_workflow_logs_sections[OF assms(1,2)] get_workflow_logs_sections[OF assms(3) ne'] same
    by (simp add: log_sections_env[OF assms(4,5)])
qed

text \<open>
  Claim C6. Let the engine answer with a document that has pod nodes. The entries of the
  pod nodes, each with its start time (the empty string when the node records none), are
  sorted by start time: the sorted list has the same entries, its start times ascend,
  entries with the same start time keep the order of the document, and entries without a
  start time come before all that have one. The text that \<^verbatim>\<open>get_workflow_logs\<close>
  returns is the sections joined by a blank line: first one section per pod node, the
  section at position \<open>i\<close> being the header and the log body of the entry at position \<open>i\<close>
  of the sorted list, then at most the section of the aggregated logs; so the section of
  an earlier entry stands before the section of a later one in the text. When no two
  pods share a start time, a document that lists the same nodes in another order gives
  the same text.
\<close>

theorem pod_sections_ordered:
  fixes doc :: workflow
  assumes "get_workflow e w name = (Inr (Some doc), w1)" and "extract_pod_nodes doc \<noteq> []"
  shows
  "extract_pod_nodes doc = map snd (sort_key fst (pod_entries (wf_nodes doc))) \<and>
   pod_entries (wf_nodes doc) =
     map (\<lambda>n. (case node_startedAt n of None \<Rightarrow> [] | Some s \<Rightarrow> s,
                str_or (node_displayName n) (str_or (node_name n) (str_or (node_podName n) [])),
                str_or (node_podName n) [],
                case node_phase n of None \<Rightarrow> ''Unknown'' | Some ph \<Rightarrow> ph))
         (filter (\<lambda>n. str_or (node_podName n) [] \<noteq> []) (wf_nodes doc)) \<and>
   mset (sort_key fst (pod_entries (wf_nodes doc))) = mset (pod_entries (wf_nodes doc)) \<and>
   sorted (map fst (sort_key fst (pod_entries (wf_nodes doc)))) \<and>
   (\<forall>k. filter (\<lambda>x. fst x = k) (sort_key fst (pod_entries (wf_nodes doc))) =
        filter (\<lambda>x. fst x = k) (pod_entries (wf_nodes doc))) \<and>
   (\<forall>i j. i < length (pod_entries (wf_nodes doc)) \<and> j < length (pod_entries (wf_nodes doc)) \<and>
          fst (sort_key fst (pod_entries (wf_nodes doc)) ! i) = [] \<and>
          fst (sort_key fst (pod_entries (wf_nodes doc)) ! j) \<noteq> [] \<longrightarrow> i < j) \<and>
   (\<exists>sections rest w'.
        get_workflow_logs e w name tail = (Inr (join (newline @ newline) (sections @ rest)), w') \<and>
        length sections = length (sort_key fst (pod_entries (wf_nodes doc))) \<and>
        (\<forall>i < length (sort_key fst (pod_entries (wf_nodes doc))).
           sections ! i =
             section_header (fst (snd (sort_key fst (pod_entries (wf_nodes doc)) ! i)))
                            (fst (snd (snd (sort_key fst (pod_entries (wf_nodes doc)) ! i))))
                            (snd (snd (snd (sort_key fst (pod_entries (wf_nodes doc)) ! i))))
               @ newline @
               fst (pod_body e
                      (snd (pod_sections e w1 name tail
                              (take i (map snd (sort_key fst (pod_entries (wf_nodes doc)))))))
                      name tail (fst (snd (snd (sort_key fst (pod_entries (wf_nodes doc)) ! i)))))) \<and>
        (rest = [] \<or> (\<exists>text. rest = [''=== Aggregated workflow logs ==='' @ newline @ text])) \<and>
        (\<forall>i j. i < j \<and> j < length (sort_key fst (pod_entries (wf_nodes doc))) \<longrightarrow>
           (\<exists>a m b. join (newline @ newline) (sections @ rest) = a @ sections ! i @ m @ sections ! j @ b))) \<and>
   (\<forall>e' doc'. get_workflow e' w name = (Inr (Some doc'), w1) \<and>
        argo_log e' = argo_log e \<and> response_truthy e' = response_truthy e \<and>
        mset (wf_nodes doc') = mset (wf_nodes doc) \<and> inj_on fst (set (pod_entries (wf_nodes doc)))
       \<longrightarrow> get_workflow_logs e' w name tail = get_workflow_logs e w name tail)"
proof (intro conjI allI impI)
  show "extract_pod_nodes doc = map snd (sort_key fst (pod_entries (wf_nodes doc)))"
    by (simp add: extract_pod_nodes_def)
next
  have "str_or x [] = (case x of None \<Rightarrow> [] | Some s \<Rightarrow> s)" for x
    by (simp add: str_or_def split: option.splits)
  then show "pod_entries (wf_nodes doc) =
     map (\<lambda>n. (case node_startedAt n of None \<Rightarrow> [] | Some s \<Rightarrow> s,
                str_or (node_displayName n) (str_or (node_name n) (str_or (node_podName n) [])),
                str_or (node_podName n) [],
                case node_phase n of None \<Rightarrow> ''Unknown'' | Some ph \<Rightarrow> ph))
         (filter (\<lambda>n. str_or (node_podName n) [] \<noteq> []) (wf_nodes doc))"
    by (simp add: pod_entries_filter_map)
next
  show "mset (sort_key fst (pod_entries (wf_nodes doc))) = mset (pod_entries (wf_nodes doc))"
    by simp
next
  show "sorted (map fst (sort_key fst (pod_entries (wf_nodes doc))))"
    by (rule sorted_sort_key)
next
  fix k show "filter (\<lambda>x. fst x = k) (sort_key fst (pod_entries (wf_nodes doc))) =
        filter (\<lambda>x. fst x = k) (pod_entries (wf_nodes doc))"
    by (rule sort_key_stable)
next
  fix i j
  assume a: "i < length (pod_entries (wf_nodes doc)) \<and> j < length (pod_entries (wf_nodes doc)) \<and>
          fst (sort_key fst (pod_entries (wf_nodes doc)) ! i) = [] \<and>
          fst (sort_key fst (pod_entries (wf_nodes doc)) ! j) \<noteq> []"
  let ?s = "sort_key fst (pod_entries (wf_nodes doc))"
  from a have li: "i < length ?s" and lj: "j < length ?s"
    and si: "fst (?s ! i) = []" and sj: "fst (?s ! j) \<noteq> []"
    by simp_all
  have srt: "sorted (map fst ?s)" by (rule sorted_sort_key)
  show "i < j" using srt li lj si sj by (rule empty_start_first)
next
  show "\<exists>sections rest w'.
        get_workflow_logs e w name tail = (Inr (join (newline @ newline) (sections @ rest)), w') \<and>
        length sections = length (sort_key fst (pod_entries (wf_nodes doc))) \<and>
        (\<forall>i < length (sort_key fst (pod_entries (wf_nodes doc))).
           sections ! i =
             section_header (fst (snd (sort_key fst (pod_entries (wf_nodes doc)) ! i)))
                            (fst (snd (snd (sort_key fst (pod_entries (wf_nodes doc)) ! i))))
                            (snd (snd (snd (sort_key fst (pod_entries (wf_nodes doc)) ! i))))
               @ newline @
               fst (pod_body e
                      (snd (pod_sections e w1 name tail
                              (take i (map snd (sort_key fst (pod_entries (wf_nodes doc)))))))
                      name tail (fst (snd (snd (sort_key fst (pod_entries (wf_nodes doc)) ! i)))))) \<and>
        (rest = [] \<or> (\<exists>text. rest = [''=== Aggregated workflow logs ==='' @ newline @ text])) \<and>
        (\<forall>i j. i < j \<and> j < length (sort_key fst (pod_entries (wf_nodes doc))) \<longrightarrow>
           (\<exists>a m b. join (newline @ newline) (sections @ rest) = a @ sections ! i @ m @ sections ! j @ b))"
    using assms by (rule log_text_sections)
next
  fix e' and doc' :: workflow
  assume a: "get_workflow e' w name = (Inr (Some doc'), w1) \<and>
        argo_log e' = argo_log e \<and> response_truthy e' = response_truthy e \<and>
        mset (wf_nodes doc') = mset (wf_nodes doc) \<and> inj_on fst (set (pod_entries (wf_nodes doc)))"
  show "get_workflow_logs e' w name tail = get_workflow_logs e w name tail"
    using assms a by (intro log_text_shuffled[of e w name doc w1 e' doc']) simp_all
qed


lemma extract_four:
  "extract_pod_nodes (doc_of [node_t2, node_dag, node_t0, node_t1, node_t3]) =
     [(''queue'', ''pod-0'', ''Pending''), (''load'', ''pod-1'', ''Succeeded''),
      (''wf.train'', ''pod-2'', ''Running''), (''pod-3'', ''pod-3'', ''Unknown'')]"
  by code_simp

lemma four_text:
  "fst (get_workflow_logs env_four world0 ''wf'' None) =
     Inr (join (newline @ newline)
            [section_header ''queue'' ''pod-0'' ''Pending'' @ newline @ ''queued'',
             section_header ''load'' ''pod-1'' ''Succeeded'' @ newline @ ''loading'',
             section_header ''wf.train'' ''pod-2'' ''Running'' @ newline @ ''epoch 1'',
             section_header ''pod-3'' ''pod-3'' ''Unknown'' @ newline @ ''done''])"
  by code_simp

theorem pod_sections_ordered_witness:
  "get_workflow env_four world0 ''wf'' =
     (Inr (Some (doc_of [node_t2, node_dag, node_t0, node_t1, node_t3])), issue world0 [Get_workflow ''wf'']) \<and>
   node_startedAt node_t0 = None \<and>
   extract_pod_nodes (doc_of [node_t2, node_dag, node_t0, node_t1, node_t3]) =
     [(''queue'', ''pod-0'', ''Pending''), (''load'', ''pod-1'', ''Succeeded''),
      (''wf.train'', ''pod-2'', ''Running''), (''pod-3'', ''pod-3'', ''Unknown'')] \<and>
   fst (get_workflow_logs env_four world0 ''wf'' None) =
     Inr (join (newline @ newline)
            [section_header ''queue'' ''pod-0'' ''Pending'' @ newline @ ''queued'',
             section_header ''load'' ''pod-1'' ''Succeeded'' @ newline @ ''loading'',
             section_header ''wf.train'' ''pod-2'' ''Running'' @ newline @ ''epoch 1'',
             section_header ''pod-3'' ''pod-3'' ''Unknown'' @ newline @ ''done'']) \<and>
   get_workflow_logs env_four_shuffled world0 ''wf'' None = get_workflow_logs env_four world0 ''wf'' None"
proof -
  let ?doc = "doc_of [node_t2, node_dag, node_t0, node_t1, node_t3]"
  let ?doc' = "doc_of [node_t3, node_t1, node_t0, node_dag, node_t2]"
  let ?w1 = "issue world0 [Get_workflow ''wf'']"
  have h1: "get_workflow env_four world0 ''wf'' = (Inr (Some ?doc), ?w1)"
    by (simp add: get_workflow_def env_four_def env0_def is_http_error_def issue_def Let_def)
  have h2: "extract_pod_nodes ?doc \<noteq> []" by (simp add: extract_four)
  have h3: "get_workflow env_four_shuffled world0 ''wf'' = (Inr (Some ?doc'), ?w1)"
    by (simp add: get_workflow_def env_four_shuffled_def env0_def is_http_error_def issue_def Let_def)
  have h4: "argo_log env_four_shuffled = argo_log env_four"
    by (simp add: env_four_def env_four_shuffled_def)
  have h5: "response_truthy env_four_shuffled = response_truthy env_four"
    by (simp add: env_four_def env_four_shuffled_def)
  have h6: "mset (wf_nodes ?doc') = mset (wf_nodes ?doc)" by (simp add: doc_of_def)
  have h7: "inj_on fst (set (pod_entries (wf_nodes ?doc)))"
    by (simp add: doc_of_def node_t0_def node_t1_def node_t2_def node_t3_def node_dag_def str_or_def Let_def)
  have same: "get_workflow_logs env_four_shuffled world0 ''wf'' None = get_workflow_logs env_four world0 ''wf'' None"
    using pod_sections_ordered[OF h1 h2, of None] h3 h4 h5 h6 h7 by blast
  have n: "node_startedAt node_t0 = None" by (simp add: node_t0_def)
  show ?thesis using h1 n extract_four four_text same by simp
qed


section \<open>One failing pod\<close>

text \<open>
  A pod whose requests fail does not end the aggregation: the text has the section of
  that pod with the body made by the handler, and the section of every pod with the body
  that \<open>pod_body\<close> gives it.
\<close>

lemma failing_pod_sections:
  assumes "get_workflow e w name = (Inr (Some doc), w1)"
    and "i < length (extract_pod_nodes doc)" and "extract_pod_nodes doc ! i = (d_i, p_i, ph_i)"
    and "w_i = snd (pod_sections e w1 name tail (take i (extract_pod_nodes doc)))"
    and "log_response e (length (trace w_i)) (pod_query name tail p_i ''main'') = Inl exc \<or>
         (\<exists>text exc2.
            log_response e (length (trace w_i)) (pod_query name tail p_i ''main'') = Inr text \<and>
            strip text = [] \<and>
            log_response e (length (trace w_i) + 1) (pod_query name tail p_i ''wait'') = Inl exc2 \<and>
            log_response e (length (trace w_i) + 2) (pod_query name tail p_i ''main'') = Inl exc)"
  shows "\<exists>out w'. get_workflow_logs e w name tail = (Inr out, w') \<and>
           (\<exists>a b. out = a @ (section_header d_i p_i ph_i @ newline @ failure_body e p_i exc) @ b) \<and>
           (\<forall>j d p ph. j < length (extract_pod_nodes doc) \<and> extract_pod_nodes doc ! j = (d, p, ph) \<longrightarrow>
              (\<exists>a b. out = a @ (section_header d p ph @ newline @
                         fst (pod_body e (snd (pod_sections e w1 name tail (take j (extract_pod_nodes doc))))
                                name tail p)) @ b))"
proof -
  have ne: "extract_pod_nodes doc \<noteq> []" using assms(2) by auto
  obtain out w' where res: "get_workflow_logs e w name tail = (Inr out, w')"
    using get_workflow_logs_sections[OF assms(1) ne] by blast
  have bi: "fst (pod_body e w_i name tail p_i) = failure_body e p_i exc"
    using assms(5) by (auto simp: pod_body_unfold)
  have si: "\<exists>a b. out = a @ (section_header d_i p_i ph_i @ newline @ failure_body e p_i exc) @ b"
    using assms(1,2,3) bi res unfolding assms(4) by (rule section_in_output)
  have sj: "\<exists>a b. out = a @ (section_header d p ph @ newline @
                         fst (pod_body e (snd (pod_sections e w1 name tail (take j (extract_pod_nodes doc))))
                                name tail p)) @ b"
    if "j < length (extract_pod_nodes doc) \<and> extract_pod_nodes doc ! j = (d, p, ph)" for j d p ph
    using assms(1) that res by (intro section_in_output[of e w name doc w1 j d p ph tail _ out w']) simp_all
  show ?thesis using res si sj by blast
qed

text \<open>
  Claim C7. The handler of \<^verbatim>\<open>requests.HTTPError\<close> prints the status only when the response
  object of the error counts as true, and the HTTP library gives a response whose status
  is an error the truth value false (\<open>response_truthy\<close> of the environment below: true
  under 400). So the status, which is known, is never printed. Here the engine answers
  the log request of \<^verbatim>\<open>pod-2\<close> with status 500: the text still has the logs of the other
  two pods, and the section of \<^verbatim>\<open>pod-2\<close> reads \<^verbatim>\<open>(HTTP unknown)\<close>.
\<close>

theorem failing_pod_status_unknown:
  "log_response env_pod2_down 2 (pod_query ''wf'' None ''pod-2'' ''main'') = Inl (HTTPError 500) \<and>
   failure_body env_pod2_down ''pod-2'' (HTTPError 500) = ''Failed to fetch logs for pod pod-2 (HTTP unknown).'' \<and>
   fst (get_workflow_logs env_pod2_down world0 ''wf'' None) =
     Inr (join (newline @ newline)
            [section_header ''load'' ''pod-1'' ''Succeeded'' @ newline @ ''loading'',
             section_header ''wf.train'' ''pod-2'' ''Running'' @ newline @
               ''Failed to fetch logs for pod pod-2 (HTTP unknown).'',
             section_header ''pod-3'' ''pod-3'' ''Unknown'' @ newline @ ''done'',
             ''=== Aggregated workflow logs ==='' @ newline @ ''done''])"
proof -
  have a: "log_response env_pod2_down 2 (pod_query ''wf'' None ''pod-2'' ''main'') = Inl (HTTPError 500)"
    by (simp add: log_response_def env_pod2_down_def env0_def pod_query_def log_params_def is_http_error_def)
  have b: "failure_body env_pod2_down ''pod-2'' (HTTPError 500) =
             ''Failed to fetch logs for pod pod-2 (HTTP unknown).''"
    by (simp add: failure_body_def env_pod2_down_def env0_def)
  have c: "fst (get_workflow_logs env_pod2_down world0 ''wf'' None) =
     Inr (join (newline @ newline)
            [section_header ''load'' ''pod-1'' ''Succeeded'' @ newline @ ''loading'',
             section_header ''wf.train'' ''pod-2'' ''Running'' @ newline @
               ''Failed to fetch logs for pod pod-2 (HTTP unknown).'',
             section_header ''pod-3'' ''pod-3'' ''Unknown'' @ newline @ ''done'',
             ''=== Aggregated workflow logs ==='' @ newline @ ''done''])"
    by code_simp
  show ?thesis using a b c by simp
qed

section \<open>Refreshing a finished run\<close>

lemma load_state_trace: "load_state e (w\<lparr>trace := t\<rparr>) = load_state e w"
  by (simp add: load_state_def load_json_def)

lemma update_run_entry_found:
  assumes "load_state e w = Inr (data, runs)" and "map_of runs run_id = Some run"
  shows "update_run_entry e w run_id updates =
           (Inr (Some (snd (backfill_result_object e
                        (AList.update ''updated_at'' (JStr (now e w)) (dict_update run updates))))),
            save_json (state_json (data, AList.update run_id
                        (snd (backfill_result_object e
                           (AList.update ''updated_at'' (JStr (now e w)) (dict_update run updates)))) runs)) w)"
  using assms by (simp add: update_run_entry_def Let_def)

lemma refresh_run_terminal:
  "current_phase run = Inr phase \<Longrightarrow> phase \<in> set terminal_phases \<Longrightarrow> refresh_run e w run = (Inr run, w)"
  by (simp add: refresh_run_def Let_def)

lemma load_done_world:
  "load_state env_succeeded done_world = Inr ([(''runs'', JObj [(''r1'', JObj done_run)])], [(''r1'', done_run)])"
  by (simp add: load_state_def load_json_def done_world_def done_run_def
      stored_runs_def dget_def normalize_runs_def normalize_record_def py_or_def Let_def)

lemma done_phase: "current_phase done_run = Inr ''succeeded''"
  by code_simp

lemma clock_1: "clock env_succeeded (Suc 0) = ''T1''"
  by code_simp

text \<open>
  Claim C1. \<^verbatim>\<open>list_runs\<close> appends a run whose phase is terminal as it is, without a
  query (\<open>refresh_run_terminal\<close>). \<^verbatim>\<open>get_run\<close> has no such test: for the stored run
  \<^verbatim>\<open>r1\<close>, whose phase is \<^verbatim>\<open>Succeeded\<close>, it asks the engine for \<^verbatim>\<open>wf-1\<close>, writes the
  registry, and returns a record that differs from the stored one in its status and in
  \<^verbatim>\<open>updated_at\<close>.
\<close>

theorem get_run_queries_finished_run:
  "current_phase done_run = Inr ''succeeded'' \<and> ''succeeded'' \<in> set terminal_phases \<and>
   refresh_run env_succeeded done_world done_run = (Inr done_run, done_world) \<and>
   entries_get_run env_succeeded done_world ''r1'' = (Inr (Some done_run), done_world) \<and>
   get_run env_succeeded done_world ''r1'' True =
     (Inr refreshed_run,
      \<lparr>entries_file = Some (JObj [(''runs'', JObj [(''r1'', JObj refreshed_run)])]),
       trace = [Get_workflow ''wf-1'', Write_entries (JObj [(''runs'', JObj [(''r1'', JObj refreshed_run)])])]\<rparr>)"
proof -
  have t: "''succeeded'' \<in> set terminal_phases" by (simp add: terminal_phases_def)
  have r: "refresh_run env_succeeded done_world done_run = (Inr done_run, done_world)"
    using done_phase t by (rule refresh_run_terminal)
  have bf: "backfill_result_object env_succeeded done_run = (False, done_run)"
    by (simp add: backfill_result_object_def done_run_def dget_def)
  have g: "entries_get_run env_succeeded done_world ''r1'' = (Inr (Some done_run), done_world)"
    using bf by (simp add: entries_get_run_def load_done_world)
  have st: "get_workflow_status env_succeeded done_world ''wf-1'' =
      (Inr (Some [(''phase'', JStr ''Succeeded''), (''startedAt'', JStr ''10:00:00''),
                  (''finishedAt'', JStr ''10:30:00''), (''progress'', JStr ''1/1''),
                  (''message'', JNull)]), done_world\<lparr>trace := trace done_world @ [Get_workflow ''wf-1'']\<rparr>)"
    by (simp add: get_workflow_status_def get_workflow_def env_succeeded_def env0_def doc_succeeded_def
        opt_json_def is_http_error_def Let_def)
  let ?w1 = "done_world\<lparr>trace := trace done_world @ [Get_workflow ''wf-1'']\<rparr>"
  let ?status = "[(''phase'', JStr ''Succeeded''), (''startedAt'', JStr ''10:00:00''),
                  (''finishedAt'', JStr ''10:30:00''), (''progress'', JStr ''1/1''),
                  (''message'', JNull)]"
  have ld: "load_state env_succeeded ?w1 = Inr ([(''runs'', JObj [(''r1'', JObj done_run)])], [(''r1'', done_run)])"
    by (simp only: load_state_trace load_done_world)
  have look: "map_of [(''r1'', done_run)] ''r1'' = Some done_run" by simp
  have nw: "now env_succeeded ?w1 = ''T1''"
    by (simp add: now_def done_world_def clock_1)
  have r3: "snd (backfill_result_object env_succeeded
               (AList.update ''updated_at'' (JStr ''T1'') (dict_update done_run [(''status'', JObj ?status)])))
            = refreshed_run"
    by (simp add: backfill_result_object_def dict_update_def done_run_def refreshed_run_def dget_def)
  have u: "update_run_entry env_succeeded ?w1 ''r1'' [(''status'', JObj ?status)] =
      (Inr (Some refreshed_run),
       \<lparr>entries_file = Some (JObj [(''runs'', JObj [(''r1'', JObj refreshed_run)])]),
        trace = [Get_workflow ''wf-1'', Write_entries (JObj [(''runs'', JObj [(''r1'', JObj refreshed_run)])])]\<rparr>)"
    unfolding update_run_entry_found[OF ld look] nw r3
    by (simp add: save_json_def state_json_def done_world_def)
  have "get_run env_succeeded done_world ''r1'' True =
     (Inr refreshed_run,
      \<lparr>entries_file = Some (JObj [(''runs'', JObj [(''r1'', JObj refreshed_run)])]),
       trace = [Get_workflow ''wf-1'', Write_entries (JObj [(''runs'', JObj [(''r1'', JObj refreshed_run)])])]\<rparr>)"
    using g st u
    by (simp add: get_run_def Let_def) (simp add: done_run_def dget_def refreshed_run_def)
  then show ?thesis using done_phase t r g by simp
qed

section \<open>The fallback of the result key\<close>

lemma get_output_artifacts_world:
  "snd (get_output_artifacts e w name) = issue w [Get_workflow name]"
  by (simp add: get_output_artifacts_def get_workflow_def issue_def Let_def
      split: reply.splits option.splits)

lemma extract_result_key_nonempty:
  "extract_result_key_from_artifacts artifacts = Some key \<Longrightarrow> key \<noteq> []"
  by (induction artifacts) (auto split: option.splits if_splits)

lemma generate_presigned_url_issue:
  "generate_presigned_url e w object_name =
     (presigned_get_object e (length (trace w)) object_name, issue w [Presign object_name])"
  by (simp add: generate_presigned_url_def issue_def)

lemma load_state_issue: "load_state e (issue w events) = load_state e w"
  by (simp add: issue_def load_state_trace)

lemma store_result_object:
  assumes "load_state e w = Inr (data, runs)" and "map_of runs run_id = Some run" and "key \<noteq> []"
  shows "\<exists>stored data' runs' run'.
           update_run_entry e w run_id [(''result_object'', JStr key)] =
             (Inr (Some run'), \<lparr>entries_file = Some stored, trace = trace w @ [Write_entries stored]\<rparr>) \<and>
           load_state e \<lparr>entries_file = Some stored, trace = t\<rparr> = Inr (data', runs') \<and>
           map_of runs' run_id = Some run' \<and>
           dget run' ''result_object'' = JStr key"
proof -
  define run' where
    "run' = AList.update ''updated_at'' (JStr (now e w)) (AList.update ''result_object'' (JStr key) run)"
  define runs' where "runs' = AList.update run_id run' runs"
  define stored where "stored = state_json (data, runs')"
  have res: "dget run' ''result_object'' = JStr key" by (simp add: run'_def dget_update)
  have bf: "backfill_result_object e run' = (False, run')"
    using assms(3) res by (simp add: backfill_result_object_def)
  have du: "dict_update run [(''result_object'', JStr key)] = AList.update ''result_object'' (JStr key) run"
    by (simp add: dict_update_def)
  have upd: "update_run_entry e w run_id [(''result_object'', JStr key)] =
               (Inr (Some run'), save_json stored w)"
    unfolding update_run_entry_found[OF assms(1,2)] du
    using bf by (simp add: run'_def runs'_def stored_def)
  have sv: "save_json stored w = \<lparr>entries_file = Some stored, trace = trace w @ [Write_entries stored]\<rparr>"
    by (simp add: save_json_def)
  have runs: "runs = normalize_runs e (stored_runs data)"
    using assms(1) by (simp add: load_state_runs)
  have ok: "\<forall>(k, r) \<in> set runs. map_of r ''run_id'' = Some (JStr k) \<and> ''runID'' \<notin> fst ` set r"
    and dist: "distinct (map fst runs)"
    using normalize_runs_ok[of e "stored_runs data"] runs by auto
  have "(run_id, run) \<in> set runs" using assms(2) by (rule map_of_SomeD)
  then have okr: "map_of run ''run_id'' = Some (JStr run_id) \<and> ''runID'' \<notin> fst ` set run"
    using ok by auto
  have okr': "map_of run' ''run_id'' = Some (JStr run_id) \<and> ''runID'' \<notin> fst ` set run'"
    using okr by (simp add: run'_def AList.update_conv' AList.dom_update)
  have ok': "\<forall>(k, r) \<in> set runs'. map_of r ''run_id'' = Some (JStr k) \<and> ''runID'' \<notin> fst ` set r"
    using ok okr' unfolding runs'_def by (auto dest: in_set_update)
  have dist': "distinct (map fst runs')"
    using dist by (simp add: runs'_def AList.distinct_update)
  have "load_state e (save_json stored \<lparr>entries_file = None, trace = []\<rparr>) =
      Inr (AList.update ''runs'' (JObj (map (\<lambda>(k, r). (k, JObj r)) runs')) data, runs')"
    unfolding stored_def using ok' dist' by (rule load_state_saved)
  then have ld: "load_state e \<lparr>entries_file = Some stored, trace = t\<rparr> =
      Inr (AList.update ''runs'' (JObj (map (\<lambda>(k, r). (k, JObj r)) runs')) data, runs')"
    by (simp add: load_state_def load_json_def save_json_def)
  have look: "map_of runs' run_id = Some run'" by (simp add: runs'_def AList.update_conv')
  show ?thesis using upd sv ld look res by metis
qed


lemma presign_result_retry:
  assumes s3: "presigned_get_object e (length (trace w)) object_name = S3_failure"
    and "truthy argo_name"
    and "fst (get_output_artifacts e (issue w [Presign object_name]) (py_str (repr e) argo_name)) = Inr artifacts"
    and "extract_result_key_from_artifacts artifacts = Some key" and "JStr key \<noteq> object_name"
    and "load_state e w = Inr (data, runs)" and "map_of runs run_id = Some run"
  shows "\<exists>stored data' runs' run'.
        presign_result e w run_id argo_name object_name =
          (case presigned_get_object e (length (trace w) + 3) (JStr key) of
             Url url \<Rightarrow> Inr (download run_id url)
           | S3_failure \<Rightarrow> Inl result_unavailable
           | Other_failure msg \<Rightarrow> Inl (StoreError msg),
           \<lparr>entries_file = Some stored,
            trace = trace w @ [Presign object_name, Get_workflow (py_str (repr e) argo_name),
                              Write_entries stored, Presign (JStr key)]\<rparr>) \<and>
        load_state e \<lparr>entries_file = Some stored, trace = []\<rparr> = Inr (data', runs') \<and>
        map_of runs' run_id = Some run' \<and> dget run' ''result_object'' = JStr key"
proof -
  let ?name = "py_str (repr e) argo_name"
  let ?w2 = "issue w [Presign object_name, Get_workflow ?name]"
  have arts: "get_output_artifacts e (issue w [Presign object_name]) ?name = (Inr artifacts, ?w2)"
    using assms(3) get_output_artifacts_world[of e "issue w [Presign object_name]" ?name]
    by (simp add: prod_eq_iff issue_issue)
  have ld: "load_state e ?w2 = Inr (data, runs)"
    using assms(6) by (simp add: load_state_issue)
  have ne: "key \<noteq> []" using assms(4) by (rule extract_result_key_nonempty)
  obtain stored data' runs' run' where
    upd: "update_run_entry e ?w2 run_id [(''result_object'', JStr key)] =
            (Inr (Some run'), \<lparr>entries_file = Some stored, trace = trace ?w2 @ [Write_entries stored]\<rparr>)"
    and ld': "load_state e \<lparr>entries_file = Some stored, trace = []\<rparr> = Inr (data', runs')"
    and look: "map_of runs' run_id = Some run'" and res: "dget run' ''result_object'' = JStr key"
    using store_result_object[OF ld assms(7) ne, of "[]"] by blast
  define w3 where "w3 = \<lparr>entries_file = Some stored, trace = trace ?w2 @ [Write_entries stored]\<rparr>"
  have g1: "generate_presigned_url e w object_name = (S3_failure, issue w [Presign object_name])"
    by (simp add: generate_presigned_url_issue s3)
  have g2: "generate_presigned_url e w3 (JStr key) =
      (presigned_get_object e (length (trace w) + 3) (JStr key),
       \<lparr>entries_file = Some stored,
        trace = trace w @ [Presign object_name, Get_workflow ?name,
                          Write_entries stored, Presign (JStr key)]\<rparr>)"
    by (simp add: generate_presigned_url_def w3_def issue_def numeral_3_eq_3)
  have "presign_result e w run_id argo_name object_name =
          (case presigned_get_object e (length (trace w) + 3) (JStr key) of
             Url url \<Rightarrow> Inr (download run_id url)
           | S3_failure \<Rightarrow> Inl result_unavailable
           | Other_failure msg \<Rightarrow> Inl (StoreError msg),
           \<lparr>entries_file = Some stored,
            trace = trace w @ [Presign object_name, Get_workflow ?name,
                              Write_entries stored, Presign (JStr key)]\<rparr>)"
    using assms(2,4,5) unfolding presign_result_def g1
    by (simp add: arts upd[folded w3_def] g2 split: presign_reply.splits)
  then show ?thesis using ld' look res by blast
qed

lemma presign_result_no_engine_name:
  assumes "presigned_get_object e (length (trace w)) object_name = S3_failure" and "\<not> truthy argo_name"
  shows "presign_result e w run_id argo_name object_name =
           (Inl result_unavailable, issue w [Presign object_name])"
  using assms by (simp add: presign_result_def generate_presigned_url_issue)

lemma presign_result_no_other_key:
  assumes "presigned_get_object e (length (trace w)) object_name = S3_failure" and "truthy argo_name"
    and "fst (get_output_artifacts e (issue w [Presign object_name]) (py_str (repr e) argo_name)) = Inr artifacts"
    and "case extract_result_key_from_artifacts artifacts of None \<Rightarrow> True | Some k \<Rightarrow> JStr k = object_name"
  shows "presign_result e w run_id argo_name object_name =
           (Inl result_unavailable,
            issue w [Presign object_name, Get_workflow (py_str (repr e) argo_name)])"
proof -
  let ?name = "py_str (repr e) argo_name"
  have arts: "get_output_artifacts e (issue w [Presign object_name]) ?name =
                (Inr artifacts, issue w [Presign object_name, Get_workflow ?name])"
    using assms(3) get_output_artifacts_world[of e "issue w [Presign object_name]" ?name]
    by (simp add: prod_eq_iff issue_issue)
  show ?thesis
    using assms(1,2,4)
    by (simp add: presign_result_def generate_presigned_url_issue arts split: option.splits)
qed

text \<open>
  Claim C2, as the code has it. Let the object store refuse the run's result key with
  \<^verbatim>\<open>S3Error\<close>. If the run has an engine name and the first key of the output artifacts
  of the workflow document fetched now differs from the refused key, that key is written
  to the registry as the run's \<^verbatim>\<open>result_object\<close>, then one more URL is requested, for
  that key: its URL is returned, and a second \<^verbatim>\<open>S3Error\<close> gives "Result not available".
  The effects are, in this order: the refused request, the query for the document, the
  write, the second request. If the run has no engine name, or the artifacts have no key
  or only the refused one, the result is "Result not available" without any write or
  second request.
\<close>

theorem presign_result_fallback:
  assumes "presigned_get_object e (length (trace w)) object_name = S3_failure"
  shows
  "(truthy argo_name \<and>
    fst (get_output_artifacts e (issue w [Presign object_name]) (py_str (repr e) argo_name)) = Inr artifacts \<and>
    extract_result_key_from_artifacts artifacts = Some key \<and> JStr key \<noteq> object_name \<and>
    load_state e w = Inr (data, runs) \<and> map_of runs run_id = Some run \<longrightarrow>
    (\<exists>stored data' runs' run'.
        presign_result e w run_id argo_name object_name =
          (case presigned_get_object e (length (trace w) + 3) (JStr key) of
             Url url \<Rightarrow> Inr (download run_id url)
           | S3_failure \<Rightarrow> Inl result_unavailable
           | Other_failure msg \<Rightarrow> Inl (StoreError msg),
           \<lparr>entries_file = Some stored,
            trace = trace w @ [Presign object_name, Get_workflow (py_str (repr e) argo_name),
                              Write_entries stored, Presign (JStr key)]\<rparr>) \<and>
        load_state e \<lparr>entries_file = Some stored, trace = []\<rparr> = Inr (data', runs') \<and>
        map_of runs' run_id = Some run' \<and> dget run' ''result_object'' = JStr key)) \<and>
   (\<not> truthy argo_name \<longrightarrow>
      presign_result e w run_id argo_name object_name =
        (Inl result_unavailable, issue w [Presign object_name])) \<and>
   (truthy argo_name \<and>
    fst (get_output_artifacts e (issue w [Presign object_name]) (py_str (repr e) argo_name)) = Inr artifacts \<and>
    (case extract_result_key_from_artifacts artifacts of None \<Rightarrow> True | Some k \<Rightarrow> JStr k = object_name) \<longrightarrow>
      presign_result e w run_id argo_name object_name =
        (Inl result_unavailable,
         issue w [Presign object_name, Get_workflow (py_str (repr e) argo_name)]))"
proof (intro conjI impI)
  assume "truthy argo_name \<and>
    fst (get_output_artifacts e (issue w [Presign object_name]) (py_str (repr e) argo_name)) = Inr artifacts \<and>
    extract_result_key_from_artifacts artifacts = Some key \<and> JStr key \<noteq> object_name \<and>
    load_state e w = Inr (data, runs) \<and> map_of runs run_id = Some run"
  then show "\<exists>stored data' runs' run'.
        presign_result e w run_id argo_name object_name =
          (case presigned_get_object e (length (trace w) + 3) (JStr key) of
             Url url \<Rightarrow> Inr (download run_id url)
           | S3_failure \<Rightarrow> Inl result_unavailable
           | Other_failure msg \<Rightarrow> Inl (StoreError msg),
           \<lparr>entries_file = Some stored,
            trace = trace w @ [Presign object_name, Get_workflow (py_str (repr e) argo_name),
                              Write_entries stored, Presign (JStr key)]\<rparr>) \<and>
        load_state e \<lparr>entries_file = Some stored, trace = []\<rparr> = Inr (data', runs') \<and>
        map_of runs' run_id = Some run' \<and> dget run' ''result_object'' = JStr key"
    using presign_result_retry[OF assms] by blast
next
  assume "\<not> truthy argo_name"
  with assms show "presign_result e w run_id argo_name object_name =
        (Inl result_unavailable, issue w [Presign object_name])"
    by (rule presign_result_no_engine_name)
next
  assume "truthy argo_name \<and>
    fst (get_output_artifacts e (issue w [Presign object_name]) (py_str (repr e) argo_name)) = Inr artifacts \<and>
    (case extract_result_key_from_artifacts artifacts of None \<Rightarrow> True | Some k \<Rightarrow> JStr k = object_name)"
  then show "presign_result e w run_id argo_name object_name =
        (Inl result_unavailable,
         issue w [Presign object_name, Get_workflow (py_str (repr e) argo_name)])"
    using presign_result_no_other_key[OF assms] by blast
qed


lemma load_stale_world:
  "load_state e stale_world = Inr ([(''runs'', JObj [(''r1'', JObj stale_run)])], [(''r1'', stale_run)])"
  by (simp add: load_state_def load_json_def stale_world_def stale_run_def
      stored_runs_def dget_def normalize_runs_def normalize_record_def py_or_def Let_def)

theorem presign_result_fallback_witness:
  "presigned_get_object env_moved (length (trace stale_world)) (JStr ''output/old.csv'') = S3_failure \<and>
   fst (presign_result env_moved stale_world ''r1'' (JStr ''wf-1'') (JStr ''output/old.csv'')) =
     Inr (download ''r1'' ''http://127.0.0.1:9000/inputs/output/new.csv'') \<and>
   (\<exists>stored. snd (presign_result env_moved stale_world ''r1'' (JStr ''wf-1'') (JStr ''output/old.csv'')) =
      \<lparr>entries_file = Some stored,
       trace = [Presign (JStr ''output/old.csv''), Get_workflow ''wf-1'', Write_entries stored,
                Presign (JStr ''output/new.csv'')]\<rparr>)"
proof -
  have h0: "presigned_get_object env_moved (length (trace stale_world)) (JStr ''output/old.csv'') = S3_failure"
    by (simp add: env_moved_def env0_def)
  have h1: "truthy (JStr ''wf-1'')" by simp
  have h2: "fst (get_output_artifacts env_moved (issue stale_world [Presign (JStr ''output/old.csv'')])
                   (py_str (repr env_moved) (JStr ''wf-1''))) =
            Inr [None, Some None, Some (Some ''output/new.csv'')]"
    by (simp add: get_output_artifacts_def get_workflow_def env_moved_def env0_def doc_succeeded_def
        is_http_error_def Let_def)
  have h3: "extract_result_key_from_artifacts [None, Some None, Some (Some ''output/new.csv'')] =
              Some ''output/new.csv''"
    by simp
  have h4: "JStr ''output/new.csv'' \<noteq> JStr ''output/old.csv''" by simp
  have h5: "load_state env_moved stale_world =
              Inr ([(''runs'', JObj [(''r1'', JObj stale_run)])], [(''r1'', stale_run)])"
    by (rule load_stale_world)
  have h6: "map_of [(''r1'', stale_run)] ''r1'' = Some stale_run" by simp
  have u: "presigned_get_object env_moved 3 (JStr ''output/new.csv'') =
             Url ''http://127.0.0.1:9000/inputs/output/new.csv''"
    by (simp add: env_moved_def env0_def)
  have t: "trace stale_world = []" by (simp add: stale_world_def)
  from presign_result_fallback[OF h0, of "JStr ''wf-1''" "[None, Some None, Some (Some ''output/new.csv'')]"
      "''output/new.csv''" "[(''runs'', JObj [(''r1'', JObj stale_run)])]" "[(''r1'', stale_run)]" "''r1''" stale_run]
    h1 h2 h3 h4 h5 h6
  obtain stored where
    "presign_result env_moved stale_world ''r1'' (JStr ''wf-1'') (JStr ''output/old.csv'') =
       (Inr (download ''r1'' ''http://127.0.0.1:9000/inputs/output/new.csv''),
        \<lparr>entries_file = Some stored,
         trace = [Presign (JStr ''output/old.csv''), Get_workflow ''wf-1'', Write_entries stored,
                  Presign (JStr ''output/new.csv'')]\<rparr>)"
    by (auto simp: u t)
  then show ?thesis using h0 by auto
qed

text \<open>
  The claim as stated fails when the artifacts name the refused key again: nothing is
  written and no second URL is requested.
\<close>

theorem presign_result_same_key:
  "presigned_get_object env_same (length (trace stale_world)) (JStr ''output/old.csv'') = S3_failure \<and>
   dget stale_run ''result_object'' = JStr ''output/old.csv'' \<and>
   fst (get_output_artifacts env_same (issue stale_world [Presign (JStr ''output/old.csv'')]) ''wf-1'') =
     Inr [Some (Some ''output/old.csv'')] \<and>
   presign_result env_same stale_world ''r1'' (JStr ''wf-1'') (JStr ''output/old.csv'') =
     (Inl result_unavailable,
      \<lparr>entries_file = entries_file stale_world,
       trace = [Presign (JStr ''output/old.csv''), Get_workflow ''wf-1'']\<rparr>)"
proof -
  have h0: "presigned_get_object env_same (length (trace stale_world)) (JStr ''output/old.csv'') = S3_failure"
    by (simp add: env_same_def env0_def)
  have h1: "truthy (JStr ''wf-1'')" by simp
  have h2: "fst (get_output_artifacts env_same (issue stale_world [Presign (JStr ''output/old.csv'')])
                   (py_str (repr env_same) (JStr ''wf-1''))) =
            Inr [Some (Some ''output/old.csv'')]"
    by (simp add: get_output_artifacts_def get_workflow_def env_same_def env0_def doc_succeeded_def
        is_http_error_def Let_def)
  have h3: "case extract_result_key_from_artifacts [Some (Some ''output/old.csv'')] of
              None \<Rightarrow> True | Some k \<Rightarrow> JStr k = JStr ''output/old.csv''"
    by simp
  have r: "presign_result env_same stale_world ''r1'' (JStr ''wf-1'') (JStr ''output/old.csv'') =
     (Inl result_unavailable,
      issue stale_world [Presign (JStr ''output/old.csv''), Get_workflow (py_str (repr env_same) (JStr ''wf-1''))])"
    using h0 h1 h2 h3 by (rule presign_result_no_other_key)
  have d: "dget stale_run ''result_object'' = JStr ''output/old.csv''"
    by (simp add: stale_run_def dget_def)
  show ?thesis using h0 h2 r d by (simp add: issue_def stale_world_def)
qed

section \<open>Fetching the result of a run\<close>

lemma entries_get_run_loads:
  assumes "entries_get_run e w run_id = (Inr x, w1)"
  shows "\<exists>st. load_state e w1 = Inr st"
proof (cases "load_state e w")
  case (Inl err)
  then show ?thesis using assms by (simp add: entries_get_run_def)
next
  case (Inr st)
  obtain data runs where st: "st = (data, runs)" by (cases st)
  have saved: "\<And>s. \<exists>st'. load_state e (save_json (state_json s) w) = Inr st'"
    by (simp add: load_state_def load_json_def save_json_def state_json_def)
  have "w1 = w \<or> (\<exists>s. w1 = save_json (state_json s) w)"
    using assms Inr st
    by (auto simp: entries_get_run_def Let_def split: option.splits if_splits prod.splits)
  then show ?thesis using Inr saved by auto
qed

lemma backfill_nonempty: "run \<noteq> [] \<Longrightarrow> snd (backfill_result_object e run) \<noteq> []"
  by (cases run) (auto simp: backfill_result_object_def Let_def)

lemma entries_get_run_nonempty:
  assumes "entries_get_run e w run_id = (Inr (Some run), w1)"
  shows "run \<noteq> []"
proof (cases "load_state e w")
  case (Inl err)
  then show ?thesis using assms by (simp add: entries_get_run_def)
next
  case (Inr st)
  obtain data runs where st: "st = (data, runs)" by (cases st)
  have runs: "runs = normalize_runs e (stored_runs data)"
    using Inr st by (simp add: load_state_runs)
  obtain r where look: "map_of runs run_id = Some r"
    using assms Inr st by (cases "map_of runs run_id") (auto simp: entries_get_run_def)
  have "(run_id, r) \<in> set runs" using look by (rule map_of_SomeD)
  then have "map_of r ''run_id'' = Some (JStr run_id)"
    using normalize_runs_ok[of e "stored_runs data"] runs by auto
  then have ne: "r \<noteq> []" by auto
  then have "run = snd (backfill_result_object e r)"
    using assms Inr st look by (auto simp: entries_get_run_def Let_def split: prod.splits)
  then show ?thesis using ne by (simp add: backfill_nonempty)
qed

lemma update_run_entry_error:
  "update_run_entry e w run_id updates = (Inl err, w') \<Longrightarrow> err = AttributeError"
  by (auto simp: update_run_entry_def load_state_def Let_def split: sum.splits option.splits json.splits)

lemma update_run_entry_loaded:
  "load_state e w = Inr st \<Longrightarrow> \<exists>r w'. update_run_entry e w run_id updates = (Inr r, w')"
  by (cases st) (auto simp: update_run_entry_def Let_def split: option.splits)

lemma get_workflow_world: "snd (get_workflow e w name) = issue w [Get_workflow name]"
  by (simp add: get_workflow_def issue_def Let_def split: reply.splits)

lemma lower_empty: "lower p = [] \<longleftrightarrow> p = []"
  by (simp add: lower_def)

lemma phase_lower_status:
  "phase_lower ((''phase'', opt_json x) # rest) = Inr (lower (case x of None \<Rightarrow> [] | Some p \<Rightarrow> p))"
  by (cases x) (auto simp: phase_lower_def dget_def opt_json_def py_or_def lower_def)

lemma status_check_outcome:
  assumes "load_state e w = Inr st"
  shows "fst (status_check e w run_id argo_name) =
           (if truthy argo_name \<and>
               (\<exists>doc p. fst (get_workflow e w (py_str (repr e) argo_name)) = Inr (Some doc) \<and>
                        wf_phase doc = Some p \<and> p \<noteq> [] \<and> lower p \<notin> set complete_phases)
            then Some not_complete else None)"
proof (cases "truthy argo_name")
  case False
  then show ?thesis by (simp add: status_check_def)
next
  case True
  let ?name = "py_str (repr e) argo_name"
  obtain r w1 where gw: "get_workflow e w ?name = (r, w1)" by (cases "get_workflow e w ?name")
  have w1: "w1 = issue w [Get_workflow ?name]" using get_workflow_world[of e w ?name] gw by simp
  show ?thesis
  proof (cases r)
    case (Inl err)
    then show ?thesis using True gw by (simp add: status_check_def get_workflow_status_def)
  next
    case (Inr body)
    show ?thesis
    proof (cases body)
      case None
      then show ?thesis using True gw Inr by (simp add: status_check_def get_workflow_status_def)
    next
      case (Some doc)
      have "load_state e w1 = Inr st" using assms w1 by (simp add: load_state_issue)
      then obtain u w2 where
        upd: "\<And>updates. \<exists>u w2. update_run_entry e w1 run_id updates = (Inr u, w2)"
        using update_run_entry_loaded by blast
      obtain u w2 where upd1: "update_run_entry e w1 run_id
          [(''status'', JObj [(''phase'', opt_json (wf_phase doc)),
                      (''startedAt'', opt_json (wf_startedAt doc)),
                      (''finishedAt'', opt_json (wf_finishedAt doc)),
                      (''progress'', opt_json (wf_progress doc)),
                      (''message'', opt_json (wf_message doc))])] = (Inr u, w2)"
        using upd by blast
      show ?thesis
        using True gw Inr Some upd1
        by (cases "wf_phase doc")
           (simp_all add: status_check_def get_workflow_status_def phase_lower_status lower_empty)
    qed
  qed
qed

lemma resolve_object_name_error:
  "fst (resolve_object_name e w run_id run argo_name) \<noteq> Inl not_complete"
  by (auto simp: resolve_object_name_def not_complete_def Let_def
      split: prod.splits sum.splits option.splits dest: update_run_entry_error)

lemma presign_result_error:
  "fst (presign_result e w run_id argo_name object_name) \<noteq> Inl not_complete"
  by (auto simp: presign_result_def not_complete_def result_unavailable_def Let_def
      split: prod.splits sum.splits option.splits presign_reply.splits if_splits
      dest: update_run_entry_error)


lemma get_run_result_unfold:
  assumes "entries_get_run e w run_id = (Inr (Some run), w1)"
  shows "get_run_result e w run_id =
           (case fst (status_check e w1 run_id (dget run ''argo_name'')) of
              Some err \<Rightarrow> (Inl err, snd (status_check e w1 run_id (dget run ''argo_name'')))
            | None \<Rightarrow>
                (case resolve_object_name e (snd (status_check e w1 run_id (dget run ''argo_name'')))
                        run_id run (dget run ''argo_name'') of
                   (Inl err, w3) \<Rightarrow> (Inl err, w3)
                 | (Inr object_name, w3) \<Rightarrow>
                     if \<not> truthy object_name
                     then (Inl (HTTPException 404 ''Result location unknown''), w3)
                     else presign_result e w3 run_id (dget run ''argo_name'') object_name))"
proof -
  have ne: "run \<noteq> []" using assms by (rule entries_get_run_nonempty)
  show ?thesis
    using assms ne
    by (cases "status_check e w1 run_id (dget run ''argo_name'')")
       (simp add: get_run_result_def Let_def split: option.splits)
qed

lemma get_run_result_blocked:
  assumes "entries_get_run e w run_id = (Inr (Some run), w1)"
  shows "fst (get_run_result e w run_id) = Inl not_complete \<longleftrightarrow>
           truthy (dget run ''argo_name'') \<and>
           (\<exists>doc p. fst (get_workflow e w1 (py_str (repr e) (dget run ''argo_name''))) = Inr (Some doc) \<and>
                    wf_phase doc = Some p \<and> p \<noteq> [] \<and> lower p \<notin> set complete_phases)"
proof -
  obtain st where ld: "load_state e w1 = Inr st" using entries_get_run_loads[OF assms] by blast
  let ?argo = "dget run ''argo_name''"
  let ?w2 = "snd (status_check e w1 run_id ?argo)"
  let ?blocked = "truthy ?argo \<and>
           (\<exists>doc p. fst (get_workflow e w1 (py_str (repr e) ?argo)) = Inr (Some doc) \<and>
                    wf_phase doc = Some p \<and> p \<noteq> [] \<and> lower p \<notin> set complete_phases)"
  have sc: "fst (status_check e w1 run_id ?argo) = (if ?blocked then Some not_complete else None)"
    using ld by (rule status_check_outcome)
  show ?thesis
  proof (cases ?blocked)
    case True
    then have "fst (status_check e w1 run_id ?argo) = Some not_complete" using sc by simp
    then have "fst (get_run_result e w run_id) = Inl not_complete"
      by (simp add: get_run_result_unfold[OF assms])
    then show ?thesis using True by simp
  next
    case False
    then have none: "fst (status_check e w1 run_id ?argo) = None" using sc by simp
    obtain r w3 where res: "resolve_object_name e ?w2 run_id run ?argo = (r, w3)"
      by (cases "resolve_object_name e ?w2 run_id run ?argo")
    have r: "r \<noteq> Inl not_complete" using resolve_object_name_error[of e ?w2 run_id run ?argo] res by simp
    have "fst (get_run_result e w run_id) \<noteq> Inl not_complete"
    proof (cases r)
      case (Inl err)
      then show ?thesis using none res r by (simp add: get_run_result_unfold[OF assms])
    next
      case (Inr object_name)
      then show ?thesis
        using none res presign_result_error[of e w3 run_id ?argo object_name]
        by (simp add: get_run_result_unfold[OF assms] not_complete_def)
    qed
    then show ?thesis using False by simp
  qed
qed

text \<open>
  Claim C9, as the code has it. For a run of the registry, \<^verbatim>\<open>get_run_result\<close> fails with
  409 "Run is not complete yet" exactly when the run has an engine name, the engine
  answers the status query with a document, and the phase reported there is not empty
  and, in lower case, none of \<^verbatim>\<open>succeeded\<close>, \<^verbatim>\<open>skipped\<close>, \<^verbatim>\<open>completed\<close>. The phase stored
  in the registry is not consulted. In every other case it goes on to resolve the result
  key and to request the URL.
\<close>

theorem get_run_result_not_complete:
  assumes "entries_get_run e w run_id = (Inr (Some run), w1)"
  shows "(fst (get_run_result e w run_id) = Inl not_complete \<longleftrightarrow>
            truthy (dget run ''argo_name'') \<and>
            (\<exists>doc p. fst (get_workflow e w1 (py_str (repr e) (dget run ''argo_name''))) = Inr (Some doc) \<and>
                     wf_phase doc = Some p \<and> p \<noteq> [] \<and> lower p \<notin> set complete_phases)) \<and>
         (fst (get_run_result e w run_id) \<noteq> Inl not_complete \<longrightarrow>
            get_run_result e w run_id =
              (case resolve_object_name e (snd (status_check e w1 run_id (dget run ''argo_name'')))
                      run_id run (dget run ''argo_name'') of
                 (Inl err, w3) \<Rightarrow> (Inl err, w3)
               | (Inr object_name, w3) \<Rightarrow>
                   if \<not> truthy object_name
                   then (Inl (HTTPException 404 ''Result location unknown''), w3)
                   else presign_result e w3 run_id (dget run ''argo_name'') object_name))"
proof (intro conjI impI)
  show "fst (get_run_result e w run_id) = Inl not_complete \<longleftrightarrow>
            truthy (dget run ''argo_name'') \<and>
            (\<exists>doc p. fst (get_workflow e w1 (py_str (repr e) (dget run ''argo_name''))) = Inr (Some doc) \<and>
                     wf_phase doc = Some p \<and> p \<noteq> [] \<and> lower p \<notin> set complete_phases)"
    using assms by (rule get_run_result_blocked)
next
  assume nb: "fst (get_run_result e w run_id) \<noteq> Inl not_complete"
  obtain st where ld: "load_state e w1 = Inr st" using entries_get_run_loads[OF assms] by blast
  have "fst (status_check e w1 run_id (dget run ''argo_name'')) = None"
  proof (rule ccontr)
    assume "fst (status_check e w1 run_id (dget run ''argo_name'')) \<noteq> None"
    then have "fst (status_check e w1 run_id (dget run ''argo_name'')) = Some not_complete"
      using status_check_outcome[OF ld, of run_id "dget run ''argo_name''"] by (simp split: if_splits)
    then have "fst (get_run_result e w run_id) = Inl not_complete"
      by (simp add: get_run_result_unfold[OF assms])
    then show False using nb by contradiction
  qed
  then show "get_run_result e w run_id =
              (case resolve_object_name e (snd (status_check e w1 run_id (dget run ''argo_name'')))
                      run_id run (dget run ''argo_name'') of
                 (Inl err, w3) \<Rightarrow> (Inl err, w3)
               | (Inr object_name, w3) \<Rightarrow>
                   if \<not> truthy object_name
                   then (Inl (HTTPException 404 ''Result location unknown''), w3)
                   else presign_result e w3 run_id (dget run ''argo_name'') object_name)"
    by (simp add: get_run_result_unfold[OF assms])
qed

lemma load_failed_world:
  "load_state e failed_world = Inr ([(''runs'', JObj [(''r1'', JObj failed_run)])], [(''r1'', failed_run)])"
  by (simp add: load_state_def load_json_def failed_world_def failed_run_def
      stored_runs_def dget_def normalize_runs_def normalize_record_def py_or_def Let_def)

lemma get_failed_run:
  "entries_get_run e failed_world ''r1'' = (Inr (Some failed_run), failed_world)"
proof -
  have bf: "backfill_result_object e failed_run = (False, failed_run)"
    by (simp add: backfill_result_object_def failed_run_def dget_def)
  have ne: "failed_run \<noteq> []" by (simp add: failed_run_def)
  show ?thesis using bf ne by (simp add: entries_get_run_def load_failed_world)
qed

lemma failed_report:
  "fst (get_workflow env_failed failed_world (py_str (repr env_failed) (dget failed_run ''argo_name''))) =
     Inr (Some (doc_succeeded\<lparr>wf_phase := Some ''Failed''\<rparr>))"
  by (simp add: get_workflow_def env_failed_def env0_def is_http_error_def Let_def)

lemma lower_failed: "lower ''Failed'' = ''failed''"
  by code_simp

lemma failed_not_accepted: "''failed'' \<notin> set complete_phases"
  by (simp add: complete_phases_def)

theorem get_run_result_not_complete_witness:
  "entries_get_run env_failed failed_world ''r1'' = (Inr (Some failed_run), failed_world) \<and>
   fst (get_run_result env_failed failed_world ''r1'') = Inl (HTTPException 409 ''Run is not complete yet'')"
proof -
  have h: "entries_get_run env_failed failed_world ''r1'' = (Inr (Some failed_run), failed_world)"
    by (rule get_failed_run)
  have a: "truthy (dget failed_run ''argo_name'')" by (simp add: failed_run_def dget_def)
  have b: "wf_phase (doc_succeeded\<lparr>wf_phase := Some ''Failed''\<rparr>) = Some ''Failed''" by simp
  have c: "lower ''Failed'' \<notin> set complete_phases" by (simp add: lower_failed failed_not_accepted)
  have "fst (get_run_result env_failed failed_world ''r1'') = Inl not_complete"
    using get_run_result_not_complete[OF h] a failed_report b c by blast
  then show ?thesis using h by (simp add: not_complete_def)
qed

text \<open>
  The claim as stated fails for a run that has failed: \<^verbatim>\<open>Failed\<close> is a terminal phase,
  and the request is refused as not complete.
\<close>

theorem get_run_result_refuses_failed_run:
  "current_phase failed_run = Inr ''failed'' \<and> ''failed'' \<in> set terminal_phases \<and>
   fst (get_workflow env_failed failed_world ''wf-1'') = Inr (Some (doc_succeeded\<lparr>wf_phase := Some ''Failed''\<rparr>)) \<and>
   fst (get_run_result env_failed failed_world ''r1'') = Inl (HTTPException 409 ''Run is not complete yet'')"
proof -
  have p: "current_phase failed_run = Inr ''failed''" by code_simp
  have t: "''failed'' \<in> set terminal_phases" by (simp add: terminal_phases_def)
  have a: "truthy (dget failed_run ''argo_name'')" by (simp add: failed_run_def dget_def)
  have n: "py_str (repr env_failed) (dget failed_run ''argo_name'') = ''wf-1''"
    by (simp add: failed_run_def dget_def)
  have b: "wf_phase (doc_succeeded\<lparr>wf_phase := Some ''Failed''\<rparr>) = Some ''Failed''" by simp
  have c: "lower ''Failed'' \<notin> set complete_phases" by (simp add: lower_failed failed_not_accepted)
  have "fst (get_run_result env_failed failed_world ''r1'') = Inl not_complete"
    using get_run_result_blocked[OF get_failed_run, of env_failed] a failed_report b c by blast
  then show ?thesis using p t failed_report n by (simp add: not_complete_def)
qed

end
